theory Spec2Isabelle
  imports
    Main
    "HOL-Library.Char_ord"
    "HOL-Library.List_Lexorder"
    "HOL-Library.Product_Lexorder"
    "HOL-Library.Multiset"
begin

section \<open>Strings, bytes and runes\<close>

text \<open>
  A Go \<^verbatim>\<open>string\<close> and a \<^verbatim>\<open>[]byte\<close> are sequences of bytes: both are
  \<^typ>\<open>string\<close> here (a list of 8-bit characters). With \<open>Char_ord\<close> and
  \<open>List_Lexorder\<close> the order \<open><\<close> on \<^typ>\<open>string\<close> is the byte-wise lexicographic
  order, which is what Go's \<^verbatim>\<open><\<close> on strings computes. The host is taken to be a
  Unix system: \<^verbatim>\<open>filepath.Separator\<close> is the slash, \<^verbatim>\<open>filepath.ToSlash\<close> is the
  identity and a backslash in a glob pattern is the escape character.
\<close>

definition Separator :: char where
  "Separator = CHR ''/''"

definition backslash :: char where
  "backslash = CHR 0x5C"

definition RuneError :: nat where
  "RuneError = 0xFFFD"

text \<open>
  \<^verbatim>\<open>utf8.DecodeRuneInString\<close> (and \<^verbatim>\<open>utf8.DecodeRune\<close>, the same algorithm on
  a byte slice): the rune at the head of the string and its width in bytes. The table
  \<^verbatim>\<open>first\<close> and the \<^verbatim>\<open>acceptRanges\<close> of the Go source are written out as the
  comparisons on the lead byte they stand for. The Go source assembles the rune from bit
  fields that do not overlap, \<^verbatim>\<open>rune(s0&mask2)<<6 | rune(s1&maskx)\<close>; a mask of the low
  \<open>k\<close> bits is \<open>mod 2 ^ k\<close>, a shift by \<open>k\<close> is a multiplication by \<open>2 ^ k\<close>, and the
  bitwise or of such fields is their sum. An invalid encoding is \<open>(RuneError, 1)\<close>, the
  empty string \<open>(RuneError, 0)\<close>.
\<close>

fun DecodeRuneInString :: "string \<Rightarrow> nat \<times> nat" where
  "DecodeRuneInString [] = (RuneError, 0)"
| "DecodeRuneInString (c0 # cs) =
    (let s0 = (of_char c0 :: nat) in
     if s0 < 0x80 then (s0, 1)
     else if s0 < 0xC2 \<or> 0xF4 < s0 then (RuneError, 1)
     else
       let sz = (if s0 < 0xE0 then 2 else if s0 < 0xF0 then 3 else 4 :: nat);
           lo = (if s0 = 0xE0 then 0xA0 else if s0 = 0xF0 then 0x90 else 0x80 :: nat);
           hi = (if s0 = 0xED then 0x9F else if s0 = 0xF4 then 0x8F else 0xBF :: nat)
       in
       if Suc (length cs) < sz then (RuneError, 1)
       else
         let s1 = (of_char (cs ! 0) :: nat) in
         if s1 < lo \<or> hi < s1 then (RuneError, 1)
         else if sz \<le> 2 then (s0 mod 0x20 * 0x40 + s1 mod 0x40, 2)
         else
           let s2 = (of_char (cs ! 1) :: nat) in
           if s2 < 0x80 \<or> 0xBF < s2 then (RuneError, 1)
           else if sz \<le> 3 then
             (s0 mod 0x10 * 0x1000 + s1 mod 0x40 * 0x40 + s2 mod 0x40, 3)
           else
             let s3 = (of_char (cs ! 2) :: nat) in
             if s3 < 0x80 \<or> 0xBF < s3 then (RuneError, 1)
             else
               (s0 mod 0x08 * 0x40000 + s1 mod 0x40 * 0x1000 + s2 mod 0x40 * 0x40
                  + s3 mod 0x40, 4))"

lemma mod_shift:
  assumes "k * m \<le> x" and "x < k * m + m"
  shows "(x::nat) mod m = x - k * m"
proof -
  have "x mod m = (x - k * m + k * m) mod m"
    using assms(1) by simp
  also have "\<dots> = (x - k * m) mod m"
    by simp
  also have "\<dots> = x - k * m"
    using assms by simp
  finally show ?thesis .
qed

lemma lead_byte_mod:
  "192 \<le> x \<Longrightarrow> x < 224 \<Longrightarrow> (x::nat) mod 32 = x - 192"
  "224 \<le> x \<Longrightarrow> x < 240 \<Longrightarrow> (x::nat) mod 16 = x - 224"
  "240 \<le> x \<Longrightarrow> x < 248 \<Longrightarrow> (x::nat) mod 8 = x - 240"
  "128 \<le> x \<Longrightarrow> x < 192 \<Longrightarrow> (x::nat) mod 64 = x - 128"
  using mod_shift [of 6 32 x] mod_shift [of 14 16 x] mod_shift [of 30 8 x] mod_shift [of 2 64 x]
  by simp_all

text \<open>
  The bytes of a rune: a single byte below 0x80 is the rune itself; a single byte from
  0x80 on is an invalid encoding; a rune of two to four bytes is 0x80 at least, and so is
  each of its bytes.
\<close>

lemma DecodeRuneInString_bytes:
  assumes "s \<noteq> []" and "DecodeRuneInString s = (r, w)"
  shows "(w = 1 \<and> r = of_char (hd s) \<and> r < 0x80)
    \<or> (w = 1 \<and> r = RuneError \<and> 0x80 \<le> (of_char (hd s) :: nat))
    \<or> (2 \<le> w \<and> w \<le> length s \<and> 0x80 \<le> r
         \<and> (\<forall>c \<in> set (take w s). 0x80 \<le> (of_char c :: nat)))"
proof (cases s)
  case Nil
  with assms show ?thesis by simp
next
  case s: (Cons c0 cs)
  show ?thesis
  proof (cases "(of_char c0 :: nat) < 0x80 \<or> of_char c0 < (0xC2::nat) \<or> (0xF4::nat) < of_char c0")
    case True
    with assms s show ?thesis
      by (auto simp: Let_def split: if_splits)
  next
    case False
    then have hi: "0x80 \<le> (of_char c0 :: nat)" by simp
    show ?thesis
    proof (cases cs)
      case Nil
      with assms s False show ?thesis
        by (auto simp: Let_def split: if_splits)
    next
      case cs: (Cons c1 cs1)
      show ?thesis
      proof (cases cs1)
        case Nil
        with assms s cs False hi show ?thesis
          by (auto simp: Let_def lead_byte_mod split: if_splits)
      next
        case cs1: (Cons c2 cs2)
        show ?thesis
        proof (cases cs2)
          case Nil
          with assms s cs cs1 False hi show ?thesis
            by (auto simp: Let_def lead_byte_mod split: if_splits)
        next
          case cs2: (Cons c3 cs3)
          with assms s cs cs1 False hi show ?thesis
            by (auto simp: Let_def lead_byte_mod split: if_splits)
        qed
      qed
    qed
  qed
qed

text \<open>
  \<^verbatim>\<open>strings.ToLower\<close> on the ASCII letters. On a string with bytes above 0x7F Go
  maps every rune through \<^verbatim>\<open>unicode.ToLower\<close>, whose table is not modelled: such
  bytes are left as they are here (Go lowers the Kelvin sign U+212A to \<^verbatim>\<open>k\<close>, for
  one). The program looks the result up in its tables of
  extensions; the theorems below do not depend on what the lookup of a given name gives,
  and the concrete names they are evaluated on are ASCII.
\<close>

definition lowerByte :: "char \<Rightarrow> char" where
  "lowerByte c =
     (if CHR ''A'' \<le> c \<and> c \<le> CHR ''Z'' then char_of (of_char c + (32 :: nat)) else c)"

definition ToLower :: "string \<Rightarrow> string" where
  "ToLower s = map lowerByte s"

text \<open>
  \<^verbatim>\<open>strings.EqualFold\<close>, used by the program only against the literal
  \<^verbatim>\<open>"readme.md"\<close>. Go compares under Unicode simple case folding; the letters of
  that literal fold only to their ASCII upper-case forms, so against it the comparison is
  the ASCII case-insensitive one.
\<close>

definition EqualFold :: "string \<Rightarrow> string \<Rightarrow> bool" where
  "EqualFold s t = (map lowerByte s = map lowerByte t)"

text \<open>
  \<^verbatim>\<open>filepath.Ext\<close>: the suffix beginning at the final dot in the final element of
  the path, empty if there is no dot. The Go loop runs from the last byte backwards and
  stops at a separator; \<open>extFrom\<close> is that loop on the reversed path, carrying the bytes
  already passed.
\<close>

fun extFrom :: "string \<Rightarrow> string \<Rightarrow> string" where
  "extFrom [] acc = []"
| "extFrom (c # cs) acc =
     (if c = Separator then []
      else if c = CHR ''.'' then c # acc
      else extFrom cs (c # acc))"

definition Ext :: "string \<Rightarrow> string" where
  "Ext path = extFrom (rev path) []"

text \<open>
  \<^verbatim>\<open>filepath.Base\<close>: the last element of the path, after trailing separators are
  removed; \<^verbatim>\<open>"."\<close> for the empty path and the separator for a path of separators.
\<close>

definition Base :: "string \<Rightarrow> string" where
  "Base path =
     (if path = [] then ''.''
      else
        let p = rev (dropWhile (\<lambda>c. c = Separator) (rev path));
            e = rev (takeWhile (\<lambda>c. c \<noteq> Separator) (rev p))
        in if e = [] then [Separator] else e)"

text \<open>
  \<^verbatim>\<open>filepath.Clean\<close> and \<^verbatim>\<open>filepath.Join\<close> of the Go standard library
  (\<^verbatim>\<open>path/filepath/path.go\<close>), used by the program for the prefix of \<^verbatim>\<open>-p\<close>. The
  buffer \<^verbatim>\<open>out\<close> of the Go source is the string written so far, its index
  \<^verbatim>\<open>out.w\<close> is the length of that string, and \<^verbatim>\<open>dotdot\<close> is the index where a
  \<^verbatim>\<open>..\<close> element must stop going back. \<open>backtrack\<close> is the inner loop that removes the
  last element from the buffer; \<open>cleanLoop\<close> is the loop over the path.
\<close>

function backtrack :: "nat \<Rightarrow> string \<Rightarrow> nat \<Rightarrow> nat" where
  "backtrack dotdot out w =
     (if w > dotdot \<and> out ! w \<noteq> Separator then backtrack dotdot out (w - 1) else w)"
  by pat_completeness auto

termination
  by (relation "measure (\<lambda>(dotdot, out, w). w)") auto

declare backtrack.simps [simp del]

function cleanLoop :: "bool \<Rightarrow> string \<Rightarrow> string \<Rightarrow> nat \<Rightarrow> string" where
  "cleanLoop rooted [] out dotdot = out"
| "cleanLoop rooted (c # cs) out dotdot =
     (if c = Separator then cleanLoop rooted cs out dotdot
      else if c = CHR ''.'' \<and> (cs = [] \<or> hd cs = Separator) then cleanLoop rooted cs out dotdot
      else if c = CHR ''.'' \<and> hd cs = CHR ''.'' \<and> (tl cs = [] \<or> hd (tl cs) = Separator) then
        (if length out > dotdot
         then cleanLoop rooted (tl cs) (take (backtrack dotdot out (length out - 1)) out) dotdot
         else if \<not> rooted then
           (let out1 = (if length out > 0 then out @ [Separator] else out) @ ''..''
            in cleanLoop rooted (tl cs) out1 (length out1))
         else cleanLoop rooted (tl cs) out dotdot)
      else
        (let out1 =
           (if (rooted \<and> length out \<noteq> 1) \<or> (\<not> rooted \<and> length out \<noteq> 0)
            then out @ [Separator] else out)
         in cleanLoop rooted (dropWhile (\<lambda>b. b \<noteq> Separator) cs)
              (out1 @ c # takeWhile (\<lambda>b. b \<noteq> Separator) cs) dotdot))"
  by pat_completeness auto

termination
  by (relation "measure (\<lambda>(rooted, p, out, dotdot). length p)")
    (auto simp: less_Suc_eq_le length_dropWhile_le intro: order.trans [OF diff_le_self])

definition Clean :: "string \<Rightarrow> string" where
  "Clean p =
     (if p = [] then ''.''
      else
        let rooted = (hd p = Separator);
            out =
              (if rooted then cleanLoop rooted (tl p) [Separator] 1
               else cleanLoop rooted p [] 0)
        in if out = [] then ''.'' else out)"

definition Join :: "string \<Rightarrow> string \<Rightarrow> string" where
  "Join a b =
     (if a \<noteq> [] then Clean (a @ [Separator] @ b) else if b \<noteq> [] then Clean b else [])"

section \<open>Glob matching: \<^verbatim>\<open>filepath.Match\<close>\<close>

text \<open>
  The program hands every include and exclude pattern to \<^verbatim>\<open>filepath.Match\<close> of
  the Go standard library (\<^verbatim>\<open>path/filepath/match.go\<close>) and keeps only the boolean,
  discarding the error. The functions below follow that file function by function:
  \<^verbatim>\<open>scanChunk\<close>, \<^verbatim>\<open>getEsc\<close>, \<^verbatim>\<open>matchChunk\<close> and \<^verbatim>\<open>Match\<close>.
  \<^verbatim>\<open>ErrBadPattern\<close> is the only error there is.
\<close>

datatype pattern_error = ErrBadPattern

text \<open>
  The \<^verbatim>\<open>Scan\<close> loop of \<^verbatim>\<open>scanChunk\<close>: the number of bytes up to the first
  star that is outside a bracket expression. A backslash takes the next byte with it.
\<close>

fun scanEnd :: "bool \<Rightarrow> string \<Rightarrow> nat" where
  "scanEnd inrange [] = 0"
| "scanEnd inrange (c # cs) =
     (if c = backslash then (case cs of [] \<Rightarrow> 1 | _ # cs' \<Rightarrow> 2 + scanEnd inrange cs')
      else if c = CHR ''['' then 1 + scanEnd True cs
      else if c = CHR '']'' then 1 + scanEnd False cs
      else if c = CHR ''*'' then (if inrange then 1 + scanEnd inrange cs else 0)
      else 1 + scanEnd inrange cs)"

text \<open>\<^verbatim>\<open>scanChunk\<close>: (star, chunk, rest).\<close>

definition scanChunk :: "string \<Rightarrow> bool \<times> string \<times> string" where
  "scanChunk pattern =
     (let star = (pattern \<noteq> [] \<and> hd pattern = CHR ''*'');
          p = dropWhile (\<lambda>c. c = CHR ''*'') pattern;
          i = scanEnd False p
      in (star, take i p, drop i p))"

text \<open>
  \<^verbatim>\<open>getEsc\<close>: a possibly escaped character of a bracket expression and the rest of
  the chunk; \<open>None\<close> is \<^verbatim>\<open>ErrBadPattern\<close>.
\<close>

definition getEsc :: "string \<Rightarrow> (nat \<times> string) option" where
  "getEsc chunk =
     (if chunk = [] \<or> hd chunk = CHR ''-'' \<or> hd chunk = CHR '']'' then None
      else
        let chunk1 = (if hd chunk = backslash then tl chunk else chunk) in
        if chunk1 = [] then None
        else
          let r = fst (DecodeRuneInString chunk1);
              n = snd (DecodeRuneInString chunk1);
              nchunk = drop n chunk1
          in if (r = RuneError \<and> n = 1) \<or> nchunk = [] then None else Some (r, nchunk))"

lemma DecodeRuneInString_width:
  "s \<noteq> [] \<Longrightarrow> 1 \<le> snd (DecodeRuneInString s) \<and> snd (DecodeRuneInString s) \<le> length s"
  by (cases s) (auto simp: Let_def Suc_le_eq)

lemma getEsc_shorter:
  "getEsc chunk = Some (r, nchunk) \<Longrightarrow> length nchunk < length chunk"
proof -
  assume h: "getEsc chunk = Some (r, nchunk)"
  then have ne: "chunk \<noteq> []"
    by (auto simp: getEsc_def)
  define chunk1 where "chunk1 = (if hd chunk = backslash then tl chunk else chunk)"
  from h ne have c1: "chunk1 \<noteq> []" and
    n: "nchunk = drop (snd (DecodeRuneInString chunk1)) chunk1"
    by (auto simp: getEsc_def chunk1_def Let_def split: if_splits)
  from c1 have "1 \<le> snd (DecodeRuneInString chunk1)"
    using DecodeRuneInString_width by blast
  with n c1 have "length nchunk < length chunk1"
    by (cases chunk1) auto
  moreover have "length chunk1 \<le> length chunk"
    by (simp add: chunk1_def)
  ultimately show ?thesis by simp
qed

text \<open>
  The loop of \<^verbatim>\<open>matchChunk\<close> that parses the ranges of a bracket expression for
  the rune \<open>r\<close>: whether a range held \<open>r\<close>, and the chunk after the closing bracket.
\<close>

function classRanges :: "nat \<Rightarrow> bool \<Rightarrow> nat \<Rightarrow> string \<Rightarrow> (bool \<times> string) option" where
  "classRanges r match nrange chunk =
     (if chunk \<noteq> [] \<and> hd chunk = CHR '']'' \<and> 0 < nrange then Some (match, tl chunk)
      else
        (case getEsc chunk of
           None \<Rightarrow> None
         | Some (lo, chunk1) \<Rightarrow>
             if hd chunk1 = CHR ''-'' then
               (case getEsc (tl chunk1) of
                  None \<Rightarrow> None
                | Some (hi, chunk2) \<Rightarrow>
                    classRanges r (match \<or> (lo \<le> r \<and> r \<le> hi)) (Suc nrange) chunk2)
             else classRanges r (match \<or> (lo \<le> r \<and> r \<le> lo)) (Suc nrange) chunk1))"
  by pat_completeness auto

termination
proof (relation "measure (\<lambda>(r, match, nrange, chunk). length chunk)")
  show "wf (measure (\<lambda>(r, match, nrange, chunk). length chunk))" by simp
next
  fix r :: nat and match :: bool and nrange :: nat and chunk x2 :: string
    and x y :: "nat \<times> string" and lo hi :: nat and chunk1 chunk2 :: string
  assume "getEsc chunk = Some x" "(lo, chunk1) = x"
    "getEsc (tl chunk1) = Some y" "(hi, chunk2) = y"
  then have "length chunk1 < length chunk" "length chunk2 < length (tl chunk1)"
    using getEsc_shorter by metis+
  then show "((r, match \<or> lo \<le> r \<and> r \<le> hi, Suc nrange, chunk2), r, match, nrange, chunk)
      \<in> measure (\<lambda>(r, match, nrange, chunk). length chunk)"
    by simp
next
  fix r :: nat and match :: bool and nrange :: nat and chunk :: string
    and x :: "nat \<times> string" and lo :: nat and chunk1 :: string
  assume "getEsc chunk = Some x" "(lo, chunk1) = x"
  then have "length chunk1 < length chunk"
    using getEsc_shorter by metis
  then show "((r, match \<or> lo \<le> r \<and> r \<le> lo, Suc nrange, chunk1), r, match, nrange, chunk)
      \<in> measure (\<lambda>(r, match, nrange, chunk). length chunk)"
    by simp
qed

declare classRanges.simps [simp del]

lemma classRanges_shorter:
  "classRanges r match nrange chunk = Some (m, chunk') \<Longrightarrow> length chunk' < length chunk"
proof (induction r match nrange chunk rule: classRanges.induct)
  case (1 r match nrange chunk)
  show ?case
  proof (cases "chunk \<noteq> [] \<and> hd chunk = CHR '']'' \<and> 0 < nrange")
    case True
    with "1.prems" have "chunk' = tl chunk"
      by (simp add: classRanges.simps [of r match nrange chunk])
    with True show ?thesis by (cases chunk) auto
  next
    case False
    with "1.prems" obtain lo chunk1 where g: "getEsc chunk = Some (lo, chunk1)"
      by (auto simp: classRanges.simps [of r match nrange chunk] split: option.splits)
    then have l1: "length chunk1 < length chunk"
      by (rule getEsc_shorter)
    show ?thesis
    proof (cases "hd chunk1 = CHR ''-''")
      case dash: True
      with False g "1.prems" obtain hi chunk2 where g2: "getEsc (tl chunk1) = Some (hi, chunk2)"
        and rec: "classRanges r (match \<or> (lo \<le> r \<and> r \<le> hi)) (Suc nrange) chunk2 = Some (m, chunk')"
        by (auto simp: classRanges.simps [of r match nrange chunk] split: option.splits)
      from g2 have "length chunk2 < length (tl chunk1)"
        by (rule getEsc_shorter)
      moreover from "1.IH"(1) [OF False g refl dash g2 refl rec]
      have "length chunk' < length chunk2" .
      ultimately show ?thesis using l1 by simp
    next
      case nodash: False
      with False g "1.prems"
      have rec: "classRanges r (match \<or> (lo \<le> r \<and> r \<le> lo)) (Suc nrange) chunk1 = Some (m, chunk')"
        by (auto simp: classRanges.simps [of r match nrange chunk] split: option.splits)
      from "1.IH"(2) [OF False g refl nodash rec]
      have "length chunk' < length chunk1" .
      with l1 show ?thesis by simp
    qed
  qed
qed

text \<open>
  \<^verbatim>\<open>matchChunk\<close>: whether the chunk (literals, bracket expressions and question
  marks) matches the beginning of \<open>s\<close>, and the remainder of \<open>s\<close>; \<open>None\<close> is
  \<^verbatim>\<open>ErrBadPattern\<close>. The flag \<open>failed\<close> is the loop variable of the Go source:
  once the match has failed the loop goes on through the chunk to check its syntax and no
  longer reads \<open>s\<close>.
\<close>

function matchChunkFrom :: "bool \<Rightarrow> string \<Rightarrow> string \<Rightarrow> (string \<times> bool) option" where
  "matchChunkFrom failed [] s = Some (if failed then ([], False) else (s, True))"
| "matchChunkFrom failed (c # chunk) s =
     (let failed1 = (failed \<or> s = []) in
      if c = CHR ''['' then
        (let r = (if \<not> failed1 then fst (DecodeRuneInString s) else 0);
             s1 = (if \<not> failed1 then drop (snd (DecodeRuneInString s)) s else s);
             negated = (chunk \<noteq> [] \<and> hd chunk = CHR ''^'');
             chunk1 = (if negated then tl chunk else chunk)
         in case classRanges r False 0 chunk1 of
              None \<Rightarrow> None
            | Some (match, chunk2) \<Rightarrow>
                matchChunkFrom (failed1 \<or> match = negated) chunk2 s1)
      else if c = CHR ''?'' then
        (if \<not> failed1
         then matchChunkFrom (hd s = Separator) chunk (drop (snd (DecodeRuneInString s)) s)
         else matchChunkFrom failed1 chunk s)
      else if c = backslash then
        (case chunk of
           [] \<Rightarrow> None
         | c1 # chunk1 \<Rightarrow>
             if \<not> failed1 then matchChunkFrom (c1 \<noteq> hd s) chunk1 (tl s)
             else matchChunkFrom failed1 chunk1 s)
      else
        (if \<not> failed1 then matchChunkFrom (c \<noteq> hd s) chunk (tl s)
         else matchChunkFrom failed1 chunk s))"
  by pat_completeness auto

termination
  by (relation "measure (\<lambda>(failed, chunk, s). length chunk)")
     (auto dest!: classRanges_shorter simp: less_Suc_eq_le intro: order.trans [OF less_imp_le])

definition matchChunk :: "string \<Rightarrow> string \<Rightarrow> (string \<times> bool) option" where
  "matchChunk chunk s = matchChunkFrom False chunk s"

lemma scanChunk_shorter:
  assumes "pattern \<noteq> []" and "scanChunk pattern = (star, chunk, rest)"
  shows "length rest < length pattern"
proof -
  obtain c cs where p: "pattern = c # cs"
    using assms(1) by (cases pattern) auto
  define q where "q = dropWhile (\<lambda>c. c = CHR ''*'') pattern"
  have rest: "rest = drop (scanEnd False q) q"
    using assms(2) by (simp add: scanChunk_def q_def Let_def)
  show ?thesis
  proof (cases "c = CHR ''*''")
    case True
    then have "q = dropWhile (\<lambda>c. c = CHR ''*'') cs"
      by (simp add: q_def p)
    then have "length q \<le> length cs"
      by (simp add: length_dropWhile_le)
    then show ?thesis
      by (simp add: rest p)
  next
    case False
    then have q: "q = c # cs"
      by (simp add: q_def p)
    from False have "0 < scanEnd False (c # cs)"
      by (auto split: list.splits)
    then show ?thesis
      by (simp add: rest q p)
  qed
qed

text \<open>
  The inner loop of \<^verbatim>\<open>Match\<close> for a chunk that follows a star: the match is tried
  after skipping one more byte of the name at a time, and a separator is never skipped.
  \<open>final\<close> says that the chunk is the last one of the pattern, which must then exhaust
  the name. \<open>Found t\<close> is \<^verbatim>\<open>continue Pattern\<close> with the name set to \<open>t\<close>.
\<close>

datatype star_result = Found string | NotFound | StarErr

fun starLoop :: "string \<Rightarrow> bool \<Rightarrow> string \<Rightarrow> star_result" where
  "starLoop chunk final [] = NotFound"
| "starLoop chunk final (c # cs) =
     (if c = Separator then NotFound
      else
        (case matchChunk chunk cs of
           None \<Rightarrow> StarErr
         | Some (t, ok) \<Rightarrow>
             if ok then (if final \<and> t \<noteq> [] then starLoop chunk final cs else Found t)
             else starLoop chunk final cs))"

text \<open>\<^verbatim>\<open>Match\<close>: (matched, err).\<close>

function Match :: "string \<Rightarrow> string \<Rightarrow> bool \<times> pattern_error option" where
  "Match pattern name =
     (if pattern = [] then (name = [], None)
      else
        (case scanChunk pattern of
           (star, chunk, rest) \<Rightarrow>
             if star \<and> chunk = [] then (Separator \<notin> set name, None)
             else
               (case matchChunk chunk name of
                  None \<Rightarrow> (False, Some ErrBadPattern)
                | Some (t, ok) \<Rightarrow>
                    if ok \<and> (t = [] \<or> rest \<noteq> []) then Match rest t
                    else
                      (case (if star then starLoop chunk (rest = []) name else NotFound) of
                         Found t' \<Rightarrow> Match rest t'
                       | StarErr \<Rightarrow> (False, Some ErrBadPattern)
                       | NotFound \<Rightarrow> (False, None)))))"
  by pat_completeness auto

termination
  by (relation "measure (\<lambda>(pattern, name). length pattern)")
     (auto dest: scanChunk_shorter [rotated, OF sym])

declare Match.simps [simp del]

text \<open>
  What the program keeps of a call, \<^verbatim>\<open>matched, _ := filepath.Match(pattern, relPath)\<close>.
\<close>

definition matched :: "string \<Rightarrow> string \<Rightarrow> bool" where
  "matched pattern relPath = fst (Match pattern relPath)"

section \<open>The file system and the walk\<close>

text \<open>
  What the program reads of the file system, as a tree. A regular file carries the
  result of \<^verbatim>\<open>d.Info()\<close> (the size in bytes, an \<^verbatim>\<open>int64\<close>, or an error) and the
  result of \<^verbatim>\<open>os.ReadFile\<close> (the content or an error). \<open>Irregular\<close> is an entry
  that is neither a directory nor a regular file (a symbolic link, a device, a socket).
  A directory carries what \<^verbatim>\<open>os.ReadDir\<close> returns for it: the entries it could read,
  with their names, and the error if there was one.
\<close>

datatype os_error = PermissionDenied | NotExist | OtherError string

datatype fsnode =
    RegularFile "os_error + int" "os_error + string"
  | Irregular
  | Directory "os_error option" "(string \<times> fsnode) list"

fun IsDir :: "fsnode \<Rightarrow> bool" where
  "IsDir (Directory rderr entries) = True"
| "IsDir d = False"

text \<open>The value a \<^verbatim>\<open>fs.WalkDirFunc\<close> returns: nil, \<^verbatim>\<open>filepath.SkipDir\<close> or an error.\<close>

datatype walk_ret = RetNil | RetSkipDir | RetErr os_error

text \<open>
  The path of an entry relative to the root, \<^verbatim>\<open>filepath.Rel(absRootDir, path)\<close>
  with \<^verbatim>\<open>path = filepath.Join(parent, name)\<close>: the root is \<^verbatim>\<open>"."\<close>, an entry of the
  root has its name, and a deeper entry has the relative path of its directory, a
  separator and its name.
\<close>

definition childRel :: "string \<Rightarrow> string \<Rightarrow> string" where
  "childRel parent name = (if parent = ''.'' then name else parent @ [Separator] @ name)"

text \<open>
  \<^verbatim>\<open>walkDir\<close> of \<^verbatim>\<open>path/filepath\<close>. The callback \<open>fn\<close> gets the relative path
  (the program computes it first thing from the path it is given), the name of the entry,
  the entry, the error and the state of the variables it has captured, and returns its
  result and the new state. A directory is read after the callback has returned nil for
  it; a read error is reported by a second call of the callback; \<^verbatim>\<open>SkipDir\<close> from
  the callback on a directory skips the directory, and on an entry that is not a
  directory it skips the remaining entries of the directory that holds it.
\<close>

fun walkDir ::
    "(string \<Rightarrow> string \<Rightarrow> fsnode \<Rightarrow> os_error option \<Rightarrow> 'st \<Rightarrow> walk_ret \<times> 'st)
      \<Rightarrow> string \<Rightarrow> string \<Rightarrow> fsnode \<Rightarrow> 'st \<Rightarrow> walk_ret \<times> 'st"
  and walkEntries ::
    "(string \<Rightarrow> string \<Rightarrow> fsnode \<Rightarrow> os_error option \<Rightarrow> 'st \<Rightarrow> walk_ret \<times> 'st)
      \<Rightarrow> string \<Rightarrow> (string \<times> fsnode) list \<Rightarrow> 'st \<Rightarrow> walk_ret \<times> 'st"
where
  "walkDir fn relPath name (Directory rderr entries) st =
     (case fn relPath name (Directory rderr entries) None st of
        (RetNil, st1) \<Rightarrow>
          (case rderr of
             None \<Rightarrow> walkEntries fn relPath entries st1
           | Some e \<Rightarrow>
               (case fn relPath name (Directory rderr entries) (Some e) st1 of
                  (RetNil, st2) \<Rightarrow> walkEntries fn relPath entries st2
                | (RetSkipDir, st2) \<Rightarrow> (RetNil, st2)
                | (RetErr e', st2) \<Rightarrow> (RetErr e', st2)))
      | (RetSkipDir, st1) \<Rightarrow> (RetNil, st1)
      | (RetErr e, st1) \<Rightarrow> (RetErr e, st1))"
| "walkDir fn relPath name (RegularFile info content) st =
     fn relPath name (RegularFile info content) None st"
| "walkDir fn relPath name Irregular st = fn relPath name Irregular None st"
| "walkEntries fn parent [] st = (RetNil, st)"
| "walkEntries fn parent ((name, d1) # ds) st =
     (case walkDir fn (childRel parent name) name d1 st of
        (RetNil, st1) \<Rightarrow> walkEntries fn parent ds st1
      | (RetSkipDir, st1) \<Rightarrow> (RetNil, st1)
      | (RetErr e, st1) \<Rightarrow> (RetErr e, st1))"

text \<open>
  \<^verbatim>\<open>filepath.WalkDir\<close>. The root is the result of \<^verbatim>\<open>os.Lstat\<close> on it: an error,
  or the tree below it. When \<^verbatim>\<open>Lstat\<close> fails the callback is called once with the
  error and a nil entry; every callback of this repository returns the error before it
  looks at the entry, which is \<open>Irregular\<close> here. \<open>rootName\<close> is the base name of the
  absolute root path, the name of the root's entry. The result is the error of the walk,
  if any, and the final state.
\<close>

definition WalkDir ::
    "(string \<Rightarrow> string \<Rightarrow> fsnode \<Rightarrow> os_error option \<Rightarrow> 'st \<Rightarrow> walk_ret \<times> 'st)
      \<Rightarrow> string \<Rightarrow> os_error + fsnode \<Rightarrow> 'st \<Rightarrow> os_error option \<times> 'st" where
  "WalkDir fn rootName root st =
     (case (case root of
              Inl e \<Rightarrow> fn ''.'' rootName Irregular (Some e) st
            | Inr d \<Rightarrow> walkDir fn ''.'' rootName d st) of
        (RetErr e, st1) \<Rightarrow> (Some e, st1)
      | (r, st1) \<Rightarrow> (None, st1))"

section \<open>The program: \<^verbatim>\<open>main.go\<close>\<close>

text \<open>
  The flags after \<^verbatim>\<open>flagSet.Parse\<close>. \<open>includes_i\<close> and \<open>excludes_e\<close> are the
  slices \<^verbatim>\<open>includes\<close> and \<^verbatim>\<open>excludes\<close> filled by the flags \<^verbatim>\<open>-i\<close> and
  \<^verbatim>\<open>-e\<close>. The last two fields are flags of the ignore-file variant of the program
  only (\<^verbatim>\<open>-x\<close> and \<^verbatim>\<open>-xe\<close>).
\<close>

record flags =
  sizeLimitKB :: int
  useClaudeXML :: bool
  useMarkdown :: bool
  prependPath :: string
  includes_i :: "string list"
  excludes_e :: "string list"
  langOnly :: bool
  excludeExts :: "string list"

record fileData =
  path :: string
  content :: string

text \<open>The two slices the walk callback appends to.\<close>

record walk_state =
  files :: "fileData list"
  skippedFiles :: "string list"

text \<open>\<^verbatim>\<open>defaultExtensions\<close>: a key that is not in a Go map reads as false.\<close>

definition defaultExtensions :: "string \<Rightarrow> bool" where
  "defaultExtensions ext \<longleftrightarrow>
     ext \<in> set [''.go'', ''.py'', ''.js'', ''.ts'', ''.java'', ''.c'', ''.h'', ''.cpp'', ''.cs'',
       ''.rs'', ''.rb'', ''.php'', ''.swift'', ''.kt'', ''.kts'', ''.scala'', ''.pl'', ''.pm'',
       ''.sh'', ''.html'', ''.css'', ''.scss'', ''.less'', ''.json'', ''.yaml'', ''.yml'',
       ''.xml'', ''.toml'', ''.ini'', ''.env'', ''.md'', ''.txt'', ''.rst'', ''.sql'']"

text \<open>
  \<^verbatim>\<open>maxSizeBytes := int64(*sizeLimitKB) * 1024\<close>: the product wraps around in 64
  bits, two's complement.
\<close>

definition wrap64 :: "int \<Rightarrow> int" where
  "wrap64 x = (x + 2 ^ 63) mod 2 ^ 64 - 2 ^ 63"

definition maxSizeBytes :: "flags \<Rightarrow> int" where
  "maxSizeBytes fl = wrap64 (sizeLimitKB fl * 1024)"

text \<open>Decimal digits, for the verb \<^verbatim>\<open>%d\<close>; Go's integer division truncates.\<close>

function digits :: "nat \<Rightarrow> string" where
  "digits n = (if n < 10 then [char_of (48 + n)] else digits (n div 10) @ [char_of (48 + n mod 10)])"
  by pat_completeness auto

termination
  by (relation "measure id") auto

declare digits.simps [simp del]

definition formatInt :: "int \<Rightarrow> string" where
  "formatInt i = (if i < 0 then CHR ''-'' # digits (nat (- i)) else digits (nat i))"

definition quo :: "int \<Rightarrow> int \<Rightarrow> int" where
  "quo a b = sgn a * sgn b * (\<bar>a\<bar> div \<bar>b\<bar>)"

text \<open>
  The reasons a file is recorded in \<^verbatim>\<open>skippedFiles\<close> with, and the entry
  \<^verbatim>\<open>fmt.Sprintf("%s (reason)", relPath)\<close> that is appended.
\<close>

datatype skip_reason =
    ExcludedByPattern
  | ErrorGettingInfo
  | TooLarge int int
  | Empty
  | Unreadable
  | UnsupportedExtension
  | ExcludedByIgnoreFile
  | ExtensionExcluded
  | NotRecognizedSource

fun reasonText :: "skip_reason \<Rightarrow> string" where
  "reasonText ExcludedByPattern = ''excluded by pattern''"
| "reasonText ErrorGettingInfo = ''error getting info''"
| "reasonText (TooLarge sz limitKB) =
     ''too large: '' @ formatInt (quo sz 1024) @ ''KB > '' @ formatInt limitKB @ ''KB''"
| "reasonText Empty = ''empty''"
| "reasonText Unreadable = ''unreadable''"
| "reasonText UnsupportedExtension = ''unsupported extension''"
| "reasonText ExcludedByIgnoreFile = ''excluded by ignore file''"
| "reasonText ExtensionExcluded = ''extension excluded by -xe''"
| "reasonText NotRecognizedSource = ''not a recognized source file with -x''"

definition skipEntry :: "string \<Rightarrow> skip_reason \<Rightarrow> string" where
  "skipEntry relPath reason = relPath @ '' ('' @ reasonText reason @ '')''"

definition skip :: "string \<Rightarrow> skip_reason \<Rightarrow> walk_state \<Rightarrow> walk_state" where
  "skip relPath reason st = st\<lparr>skippedFiles := skippedFiles st @ [skipEntry relPath reason]\<rparr>"

definition accept :: "string \<Rightarrow> string \<Rightarrow> walk_state \<Rightarrow> walk_state" where
  "accept relPath bytes st = st\<lparr>files := files st @ [\<lparr>path = relPath, content = bytes\<rparr>]\<rparr>"

text \<open>The loop over the patterns of \<^verbatim>\<open>-e\<close>, for files and for directories.\<close>

definition excluded :: "flags \<Rightarrow> string \<Rightarrow> bool" where
  "excluded fl relPath = list_ex (\<lambda>pattern. matched pattern relPath) (excludes_e fl)"

text \<open>The variable \<^verbatim>\<open>isIncluded\<close> (lines 164 to 174 of \<^verbatim>\<open>main.go\<close>).\<close>

definition isIncluded :: "flags \<Rightarrow> string \<Rightarrow> bool" where
  "isIncluded fl relPath =
     (if 0 < length (includes_i fl)
      then list_ex (\<lambda>pattern. matched pattern relPath) (includes_i fl)
      else defaultExtensions (ToLower (Ext relPath)))"

definition vcsName :: "string \<Rightarrow> bool" where
  "vcsName name \<longleftrightarrow>
     name = ''.git'' \<or> name = ''.hg'' \<or> name = ''.svn'' \<or> name = ''node_modules''"

text \<open>
  The callback that \<^verbatim>\<open>main\<close> passes to \<^verbatim>\<open>filepath.WalkDir\<close> (lines 120 to 189 of
  \<^verbatim>\<open>main.go\<close>).
\<close>

fun walkFn ::
    "flags \<Rightarrow> string \<Rightarrow> string \<Rightarrow> fsnode \<Rightarrow> os_error option \<Rightarrow> walk_state
      \<Rightarrow> walk_ret \<times> walk_state" where
  "walkFn fl relPath name d (Some e) st = (RetErr e, st)"
| "walkFn fl relPath name (Directory rderr entries) None st =
     (if vcsName name then (RetSkipDir, st)
      else if excluded fl relPath then (RetSkipDir, st)
      else (RetNil, st))"
| "walkFn fl relPath name Irregular None st = (RetNil, st)"
| "walkFn fl relPath name (RegularFile info bytes) None st =
     (if excluded fl relPath then (RetNil, skip relPath ExcludedByPattern st)
      else
        (case info of
           Inl e \<Rightarrow> (RetNil, skip relPath ErrorGettingInfo st)
         | Inr sz \<Rightarrow>
             if sz > maxSizeBytes fl
             then (RetNil, skip relPath (TooLarge sz (sizeLimitKB fl)) st)
             else if sz = 0 then (RetNil, skip relPath Empty st)
             else if isIncluded fl relPath then
               (case bytes of
                  Inl e \<Rightarrow> (RetNil, skip relPath Unreadable st)
                | Inr c \<Rightarrow> (RetNil, accept relPath c st))
             else if length (includes_i fl) = 0
             then (RetNil, skip relPath UnsupportedExtension st)
             else (RetNil, st)))"

subsection \<open>Ordering and output\<close>

text \<open>
  The comparison that \<^verbatim>\<open>main\<close> passes to \<^verbatim>\<open>sort.Slice\<close> (lines 205 to 212 of
  \<^verbatim>\<open>main.go\<close>; the other two variants of the program have the same lines).
\<close>

definition isReadme :: "fileData \<Rightarrow> bool" where
  "isReadme f = EqualFold (Base (path f)) ''readme.md''"

definition lessFile :: "fileData \<Rightarrow> fileData \<Rightarrow> bool" where
  "lessFile a b = (if isReadme a \<noteq> isReadme b then isReadme a else path a < path b)"

text \<open>
  \<^verbatim>\<open>sort.Slice\<close> promises a permutation of the slice ordered by the comparison, and
  no more (it is not stable). It is an insertion sort here. The paths of the files of one
  walk are pairwise distinct, and for such a slice the choice of the algorithm does not
  show: every ordered permutation of it is the same list (\<open>sliceSorted_unique\<close> below).
\<close>

fun insertBy :: "('a \<Rightarrow> 'a \<Rightarrow> bool) \<Rightarrow> 'a \<Rightarrow> 'a list \<Rightarrow> 'a list" where
  "insertBy lessFn x [] = [x]"
| "insertBy lessFn x (y # ys) = (if lessFn y x then y # insertBy lessFn x ys else x # y # ys)"

fun sortSlice :: "('a \<Rightarrow> 'a \<Rightarrow> bool) \<Rightarrow> 'a list \<Rightarrow> 'a list" where
  "sortSlice lessFn [] = []"
| "sortSlice lessFn (x # xs) = insertBy lessFn x (sortSlice lessFn xs)"

definition sortFiles :: "fileData list \<Rightarrow> fileData list" where
  "sortFiles fs = sortSlice lessFile fs"

text \<open>\<^verbatim>\<open>languageExtMap\<close> and \<^verbatim>\<open>getLanguageHint\<close>: a missing key reads as \<^verbatim>\<open>""\<close>.\<close>

definition languageExtMap :: "(string \<times> string) list" where
  "languageExtMap =
     [(''.go'', ''go''), (''.py'', ''python''), (''.js'', ''javascript''), (''.ts'', ''typescript''),
      (''.java'', ''java''), (''.c'', ''c''), (''.h'', ''c''), (''.cpp'', ''cpp''), (''.cs'', ''csharp''),
      (''.rs'', ''rust''), (''.rb'', ''ruby''), (''.php'', ''php''), (''.swift'', ''swift''),
      (''.kt'', ''kotlin''), (''.kts'', ''kotlin''), (''.scala'', ''scala''), (''.pl'', ''perl''),
      (''.sh'', ''bash''), (''.html'', ''html''), (''.css'', ''css''), (''.scss'', ''scss''),
      (''.less'', ''less''), (''.json'', ''json''), (''.yaml'', ''yaml''), (''.yml'', ''yaml''),
      (''.xml'', ''xml''), (''.toml'', ''toml''), (''.ini'', ''ini''), (''.env'', ''bash''),
      (''.md'', ''markdown''), (''.txt'', ''text''), (''.rst'', ''rst''), (''.sql'', ''sql'')]"

definition getLanguageHint :: "string \<Rightarrow> string" where
  "getLanguageHint p =
     (case map_of languageExtMap (ToLower (Ext p)) of None \<Rightarrow> [] | Some lang \<Rightarrow> lang)"

text \<open>
  \<^verbatim>\<open>applyPrepend\<close>. The function that joins the prefix and the path is the parameter
  \<open>join\<close> of this function and of those that call it; \<open>main\<close> passes \<open>Join\<close>, the
  model of \<^verbatim>\<open>filepath.Join\<close>. \<^verbatim>\<open>filepath.ToSlash\<close> returns its argument where the
  separator is the slash.
\<close>

definition applyPrepend :: "(string \<Rightarrow> string \<Rightarrow> string) \<Rightarrow> string \<Rightarrow> string \<Rightarrow> string" where
  "applyPrepend join p prepend = (if prepend = [] then p else join prepend p)"

text \<open>
  The builders return what they write to the \<^verbatim>\<open>strings.Builder\<close>. For each of them
  the body of the loop over the files is a function of its own, so that the text written
  for one file can be named.
\<close>

definition fence :: string where
  "fence = [CHR 0x60, CHR 0x60, CHR 0x60]"

definition newline :: string where
  "newline = [CHR 0x0A]"

definition markdownHeader :: "(string \<Rightarrow> string \<Rightarrow> string) \<Rightarrow> string \<Rightarrow> fileData \<Rightarrow> string" where
  "markdownHeader join prepend f =
     fence @ getLanguageHint (path f) @ '' path='' @ applyPrepend join (path f) prepend @ newline"

definition markdownBody :: "string \<Rightarrow> string" where
  "markdownBody bytes =
     bytes @ (if 0 < length bytes \<and> last bytes \<noteq> CHR 0x0A then newline else [])"

definition markdownFile :: "(string \<Rightarrow> string \<Rightarrow> string) \<Rightarrow> string \<Rightarrow> fileData \<Rightarrow> string" where
  "markdownFile join prepend f =
     markdownHeader join prepend f @ markdownBody (content f) @ fence @ newline @ newline"

definition buildMarkdown :: "(string \<Rightarrow> string \<Rightarrow> string) \<Rightarrow> fileData list \<Rightarrow> string \<Rightarrow> string" where
  "buildMarkdown join fs prepend = concat (map (markdownFile join prepend) fs)"

definition separatorLine :: string where
  "separatorLine = replicate 48 (CHR ''='') @ newline"

definition standardTextFile :: "(string \<Rightarrow> string \<Rightarrow> string) \<Rightarrow> string \<Rightarrow> fileData \<Rightarrow> string" where
  "standardTextFile join prepend f =
     separatorLine @ ''FILE: '' @ applyPrepend join (path f) prepend @ newline @ separatorLine
       @ content f @ newline @ newline"

definition buildStandardText :: "(string \<Rightarrow> string \<Rightarrow> string) \<Rightarrow> fileData list \<Rightarrow> string \<Rightarrow> string" where
  "buildStandardText join fs prepend = concat (map (standardTextFile join prepend) fs)"

text \<open>
  \<^verbatim>\<open>xml.EscapeText\<close> of \<^verbatim>\<open>encoding/xml\<close>: the text is read rune by rune; the five
  markup characters, tab, newline and carriage return are written as character
  references, a rune outside the character range of XML and an invalid byte are written
  as the replacement character U+FFFD, and every other rune is written as it stands.
\<close>

definition isInCharacterRange :: "nat \<Rightarrow> bool" where
  "isInCharacterRange r \<longleftrightarrow>
     r = 0x09 \<or> r = 0x0A \<or> r = 0x0D \<or> (0x20 \<le> r \<and> r \<le> 0xD7FF)
       \<or> (0xE000 \<le> r \<and> r \<le> 0xFFFD) \<or> (0x10000 \<le> r \<and> r \<le> 0x10FFFF)"

definition escFFFD :: string where
  "escFFFD = [CHR 0xEF, CHR 0xBF, CHR 0xBD]"

definition escapeRune :: "nat \<Rightarrow> nat \<Rightarrow> string \<Rightarrow> string" where
  "escapeRune r width raw =
     (if r = 0x22 then ''&#34;''
      else if r = 0x27 then ''&#39;''
      else if r = 0x26 then ''&amp;''
      else if r = 0x3C then ''&lt;''
      else if r = 0x3E then ''&gt;''
      else if r = 0x09 then ''&#x9;''
      else if r = 0x0A then ''&#xA;''
      else if r = 0x0D then ''&#xD;''
      else if \<not> isInCharacterRange r \<or> (r = 0xFFFD \<and> width = 1) then escFFFD
      else raw)"

function EscapeText :: "string \<Rightarrow> string" where
  "EscapeText s =
     (if s = [] then []
      else
        let r = fst (DecodeRuneInString s);
            width = snd (DecodeRuneInString s)
        in escapeRune r width (take width s) @ EscapeText (drop width s))"
  by pat_completeness auto

termination
proof (relation "measure length")
  show "wf (measure length)" by simp
next
  fix s :: string and r width :: nat
  assume "s \<noteq> []" and "width = snd (DecodeRuneInString s)"
  then have "1 \<le> width"
    using DecodeRuneInString_width by blast
  with \<open>s \<noteq> []\<close> show "(drop width s, s) \<in> measure length"
    by (cases s) auto
qed

declare EscapeText.simps [simp del]

definition xmlDocument :: "(string \<Rightarrow> string \<Rightarrow> string) \<Rightarrow> string \<Rightarrow> fileData \<Rightarrow> string" where
  "xmlDocument join prepend f =
     ''  <document path='' @ [CHR 0x22] @ EscapeText (applyPrepend join (path f) prepend)
       @ [CHR 0x22] @ ''>'' @ newline @ ''    <content>'' @ EscapeText (content f)
       @ ''</content>'' @ newline @ ''  </document>'' @ newline"

definition buildClaudeXML :: "(string \<Rightarrow> string \<Rightarrow> string) \<Rightarrow> fileData list \<Rightarrow> string \<Rightarrow> string" where
  "buildClaudeXML join fs prepend =
     ''<documents>'' @ newline @ concat (map (xmlDocument join prepend) fs)
       @ ''</documents>'' @ newline"

subsection \<open>\<^verbatim>\<open>main\<close>\<close>

text \<open>
  What a run leaves behind: the exit status, the bytes written to the standard output
  (\<^verbatim>\<open>fmt.Print\<close>) and the lines written through the package \<^verbatim>\<open>log\<close>, which go to
  the standard error. A log line is kept as the call that wrote it.
\<close>

datatype log_line =
    FatalBothFormats
  | FatalTooManyArgs
  | FatalAbs string os_error
  | FatalWalk string os_error
  | SkippedHeader nat
  | SkippedItem string
  | BlankLine
  | NoFilesMatched
  | Ingested nat
  | FatalCompileIgnore string os_error
  | UsingIgnoreFile string
  | NoIgnoreFile
  | SkippedFilesDirsHeader nat
  | CopiedHeader nat
  | CopiedItem string

record outcome =
  exitCode :: int
  stdout :: string
  stderr :: "log_line list"

text \<open>
  The environment of a run: the arguments that are not flags, the error of
  \<^verbatim>\<open>filepath.Abs\<close> if it fails, the base name of the absolute root path, what
  \<^verbatim>\<open>os.Lstat\<close> finds at the root.
\<close>

record env =
  positionalArgs :: "string list"
  absError :: "os_error option"
  rootName :: string
  rootEntry :: "os_error + fsnode"

definition rootDir :: "'a env_scheme \<Rightarrow> string" where
  "rootDir ev = (if length (positionalArgs ev) = 1 then hd (positionalArgs ev) else ''.'')"

definition skipReport :: "string list \<Rightarrow> log_line list" where
  "skipReport skipped =
     (if 0 < length skipped
      then SkippedHeader (length skipped) # map SkippedItem (sort skipped) @ [BlankLine]
      else [])"

text \<open>
  \<^verbatim>\<open>main\<close> of \<^verbatim>\<open>main.go\<close>, from the parsed flags on. \<^verbatim>\<open>log.Fatal\<close> writes its
  line and exits with status 1; returning from \<^verbatim>\<open>main\<close> is exit status 0.
\<close>

definition main :: "flags \<Rightarrow> env \<Rightarrow> outcome" where
  "main fl ev =
     (if useClaudeXML fl \<and> useMarkdown fl
      then \<lparr>exitCode = 1, stdout = [], stderr = [FatalBothFormats]\<rparr>
      else if length (positionalArgs ev) > 1
      then \<lparr>exitCode = 1, stdout = [], stderr = [FatalTooManyArgs]\<rparr>
      else
        (case absError ev of
           Some e \<Rightarrow> \<lparr>exitCode = 1, stdout = [], stderr = [FatalAbs (rootDir ev) e]\<rparr>
         | None \<Rightarrow>
             (case WalkDir (walkFn fl) (rootName ev) (rootEntry ev)
                     \<lparr>files = [], skippedFiles = []\<rparr> of
                (Some e, st) \<Rightarrow>
                  \<lparr>exitCode = 1, stdout = [], stderr = [FatalWalk (rootDir ev) e]\<rparr>
              | (None, st) \<Rightarrow>
                  let report = skipReport (skippedFiles st);
                      sorted_files = sortFiles (files st)
                  in
                  if length sorted_files = 0
                  then \<lparr>exitCode = 0, stdout = [], stderr = report @ [NoFilesMatched]\<rparr>
                  else
                    \<lparr>exitCode = 0,
                     stdout =
                       (if useClaudeXML fl
                        then buildClaudeXML Join sorted_files (prependPath fl)
                        else if useMarkdown fl
                        then buildMarkdown Join sorted_files (prependPath fl)
                        else buildStandardText Join sorted_files (prependPath fl)),
                     stderr = report @ [Ingested (length sorted_files)]\<rparr>)))"

section \<open>The first variant of the program\<close>

text \<open>
  The variant without skip diagnostics and without \<^verbatim>\<open>-p\<close> (the unnamed source file
  of 196 lines). Its callback appends to \<^verbatim>\<open>files\<close> only; its include and exclude
  checks are those of \<^verbatim>\<open>main.go\<close>, and so is its comparison for \<^verbatim>\<open>sort.Slice\<close>.
\<close>

fun walkFn_v1 ::
    "flags \<Rightarrow> string \<Rightarrow> string \<Rightarrow> fsnode \<Rightarrow> os_error option \<Rightarrow> fileData list
      \<Rightarrow> walk_ret \<times> fileData list" where
  "walkFn_v1 fl relPath name d (Some e) fs = (RetErr e, fs)"
| "walkFn_v1 fl relPath name (Directory rderr entries) None fs =
     (if vcsName name then (RetSkipDir, fs)
      else if excluded fl relPath then (RetSkipDir, fs)
      else (RetNil, fs))"
| "walkFn_v1 fl relPath name Irregular None fs = (RetNil, fs)"
| "walkFn_v1 fl relPath name (RegularFile info bytes) None fs =
     (if excluded fl relPath then (RetNil, fs)
      else
        (case info of
           Inl e \<Rightarrow> (RetNil, fs)
         | Inr sz \<Rightarrow>
             if sz > maxSizeBytes fl \<or> sz = 0 then (RetNil, fs)
             else if isIncluded fl relPath then
               (case bytes of
                  Inl e \<Rightarrow> (RetNil, fs)
                | Inr c \<Rightarrow> (RetNil, fs @ [\<lparr>path = relPath, content = c\<rparr>]))
             else (RetNil, fs)))"

definition markdownHeader_v1 :: "fileData \<Rightarrow> string" where
  "markdownHeader_v1 f = fence @ getLanguageHint (path f) @ '' path='' @ path f @ newline"

definition markdownFile_v1 :: "fileData \<Rightarrow> string" where
  "markdownFile_v1 f =
     markdownHeader_v1 f @ content f @ newline @ fence @ newline @ newline"

definition buildMarkdown_v1 :: "fileData list \<Rightarrow> string" where
  "buildMarkdown_v1 fs = concat (map markdownFile_v1 fs)"

definition standardTextFile_v1 :: "fileData \<Rightarrow> string" where
  "standardTextFile_v1 f =
     separatorLine @ ''FILE: '' @ path f @ newline @ separatorLine @ content f @ newline @ newline"

definition buildStandardText_v1 :: "fileData list \<Rightarrow> string" where
  "buildStandardText_v1 fs = concat (map standardTextFile_v1 fs)"

definition xmlDocument_v1 :: "fileData \<Rightarrow> string" where
  "xmlDocument_v1 f =
     ''  <document path='' @ [CHR 0x22] @ EscapeText (path f) @ [CHR 0x22] @ ''>'' @ newline
       @ ''    <content>'' @ EscapeText (content f) @ ''</content>'' @ newline
       @ ''  </document>'' @ newline"

definition buildClaudeXML_v1 :: "fileData list \<Rightarrow> string" where
  "buildClaudeXML_v1 fs =
     ''<documents>'' @ newline @ concat (map xmlDocument_v1 fs) @ ''</documents>'' @ newline"

text \<open>
  Its \<^verbatim>\<open>main\<close>: the root is the first argument left by \<^verbatim>\<open>flag.Parse\<close> if there
  is one, and further arguments are ignored.
\<close>

definition main_v1 :: "flags \<Rightarrow> env \<Rightarrow> outcome" where
  "main_v1 fl ev =
     (let root = (if length (positionalArgs ev) > 0 then hd (positionalArgs ev) else ''.'') in
      if useClaudeXML fl \<and> useMarkdown fl
      then \<lparr>exitCode = 1, stdout = [], stderr = [FatalBothFormats]\<rparr>
      else
        (case absError ev of
           Some e \<Rightarrow> \<lparr>exitCode = 1, stdout = [], stderr = [FatalAbs root e]\<rparr>
         | None \<Rightarrow>
             (case WalkDir (walkFn_v1 fl) (rootName ev) (rootEntry ev) [] of
                (Some e, fs) \<Rightarrow> \<lparr>exitCode = 1, stdout = [], stderr = [FatalWalk root e]\<rparr>
              | (None, fs) \<Rightarrow>
                  let sorted_files = sortFiles fs in
                  if length sorted_files = 0
                  then \<lparr>exitCode = 0, stdout = [], stderr = [NoFilesMatched]\<rparr>
                  else
                    \<lparr>exitCode = 0,
                     stdout =
                       (if useClaudeXML fl then buildClaudeXML_v1 sorted_files
                        else if useMarkdown fl then buildMarkdown_v1 sorted_files
                        else buildStandardText_v1 sorted_files),
                     stderr = []\<rparr>)))"

section \<open>The ignore-file variant of the program\<close>

text \<open>
  The variant with \<^verbatim>\<open>-g\<close>, \<^verbatim>\<open>-x\<close> and \<^verbatim>\<open>-xe\<close> (the unnamed source file of
  315 lines). It has no include and exclude patterns. The compiled ignore file is a
  value of the library \<^verbatim>\<open>go-gitignore\<close>, which is not part of the repository: the
  callback takes its method \<^verbatim>\<open>MatchesPath\<close> as a parameter, \<open>None\<close> when no ignore
  file was found (\<^verbatim>\<open>ignorer == nil\<close>).
\<close>

definition languageExtMap_gi :: "string list" where
  "languageExtMap_gi =
     [''.go'', ''.py'', ''.js'', ''.ts'', ''.tsx'', ''.java'', ''.c'', ''.h'', ''.cpp'', ''.cs'',
      ''.rs'', ''.rb'', ''.php'', ''.swift'', ''.kt'', ''.kts'', ''.scala'', ''.pl'', ''.sh'',
      ''.html'', ''.css'', ''.scss'', ''.less'', ''.json'', ''.yaml'', ''.yml'', ''.xml'',
      ''.toml'', ''.ini'', ''.md'', ''.txt'', ''.rst'', ''.sql'']"

text \<open>The keys of \<^verbatim>\<open>excludedExtsMap\<close>, built from the values of \<^verbatim>\<open>-xe\<close>.\<close>

definition normalizeExt :: "string \<Rightarrow> string" where
  "normalizeExt ext =
     (let e = ToLower ext in if e \<noteq> [] \<and> hd e = CHR ''.'' then e else CHR ''.'' # e)"

definition excludedExtsMap :: "flags \<Rightarrow> string \<Rightarrow> bool" where
  "excludedExtsMap fl ext \<longleftrightarrow> ext \<in> set (map normalizeExt (excludeExts fl))"

definition ignored :: "(string \<Rightarrow> bool) option \<Rightarrow> string \<Rightarrow> bool" where
  "ignored ignorer relPath = (case ignorer of None \<Rightarrow> False | Some matchesPath \<Rightarrow> matchesPath relPath)"

fun walkFn_gi ::
    "(string \<Rightarrow> bool) option \<Rightarrow> flags \<Rightarrow> string \<Rightarrow> string \<Rightarrow> fsnode \<Rightarrow> os_error option
      \<Rightarrow> walk_state \<Rightarrow> walk_ret \<times> walk_state" where
  "walkFn_gi ignorer fl relPath name d (Some e) st = (RetErr e, st)"
| "walkFn_gi ignorer fl relPath name (Directory rderr entries) None st =
     (if relPath = ''.'' then (RetNil, st)
      else if vcsName name then (RetSkipDir, st)
      else if ignored ignorer relPath
      then (RetSkipDir, skip (relPath @ ''/'') ExcludedByIgnoreFile st)
      else (RetNil, st))"
| "walkFn_gi ignorer fl relPath name Irregular None st =
     (if relPath = ''.'' then (RetNil, st)
      else if ignored ignorer relPath then (RetNil, skip relPath ExcludedByIgnoreFile st)
      else (RetNil, st))"
| "walkFn_gi ignorer fl relPath name (RegularFile info bytes) None st =
     (if relPath = ''.'' then (RetNil, st)
      else if ignored ignorer relPath then (RetNil, skip relPath ExcludedByIgnoreFile st)
      else
        let fileExt = ToLower (Ext relPath) in
        if excludedExtsMap fl fileExt then (RetNil, skip relPath ExtensionExcluded st)
        else if langOnly fl \<and> fileExt \<notin> set languageExtMap_gi
        then (RetNil, skip relPath NotRecognizedSource st)
        else
          (case info of
             Inl e \<Rightarrow> (RetNil, skip relPath ErrorGettingInfo st)
           | Inr sz \<Rightarrow>
               if sz > maxSizeBytes fl
               then (RetNil, skip relPath (TooLarge sz (sizeLimitKB fl)) st)
               else if sz = 0 then (RetNil, skip relPath Empty st)
               else
                 (case bytes of
                    Inl e \<Rightarrow> (RetNil, skip relPath Unreadable st)
                  | Inr c \<Rightarrow> (RetNil, accept relPath c st))))"

text \<open>
  \<^verbatim>\<open>languageExtMap\<close> of this variant with its values, for \<^verbatim>\<open>getLanguageHint\<close>;
  \<open>languageExtMap_gi\<close> above are its keys, all that \<^verbatim>\<open>-x\<close> looks at.
\<close>

definition languageHints_gi :: "(string \<times> string) list" where
  "languageHints_gi =
     [(''.go'', ''go''), (''.py'', ''python''), (''.js'', ''javascript''),
      (''.ts'', ''typescript''), (''.tsx'', ''tsx''), (''.java'', ''java''), (''.c'', ''c''),
      (''.h'', ''c''), (''.cpp'', ''cpp''), (''.cs'', ''csharp''), (''.rs'', ''rust''),
      (''.rb'', ''ruby''), (''.php'', ''php''), (''.swift'', ''swift''), (''.kt'', ''kotlin''),
      (''.kts'', ''kotlin''), (''.scala'', ''scala''), (''.pl'', ''perl''), (''.sh'', ''bash''),
      (''.html'', ''html''), (''.css'', ''css''), (''.scss'', ''scss''), (''.less'', ''less''),
      (''.json'', ''json''), (''.yaml'', ''yaml''), (''.yml'', ''yaml''), (''.xml'', ''xml''),
      (''.toml'', ''toml''), (''.ini'', ''ini''), (''.md'', ''markdown''), (''.txt'', ''text''),
      (''.rst'', ''rst''), (''.sql'', ''sql'')]"

definition getLanguageHint_gi :: "string \<Rightarrow> string" where
  "getLanguageHint_gi p =
     (case map_of languageHints_gi (ToLower (Ext p)) of None \<Rightarrow> [] | Some lang \<Rightarrow> lang)"

text \<open>
  The builders of this variant are those of \<^verbatim>\<open>main.go\<close>, line by line; the Markdown
  header takes its language hint from the map of this variant.
\<close>

definition markdownHeader_gi :: "(string \<Rightarrow> string \<Rightarrow> string) \<Rightarrow> string \<Rightarrow> fileData \<Rightarrow> string" where
  "markdownHeader_gi join prepend f =
     fence @ getLanguageHint_gi (path f) @ '' path='' @ applyPrepend join (path f) prepend
       @ newline"

definition markdownFile_gi :: "(string \<Rightarrow> string \<Rightarrow> string) \<Rightarrow> string \<Rightarrow> fileData \<Rightarrow> string" where
  "markdownFile_gi join prepend f =
     markdownHeader_gi join prepend f @ markdownBody (content f) @ fence @ newline @ newline"

definition buildMarkdown_gi :: "(string \<Rightarrow> string \<Rightarrow> string) \<Rightarrow> fileData list \<Rightarrow> string \<Rightarrow> string" where
  "buildMarkdown_gi join fs prepend = concat (map (markdownFile_gi join prepend) fs)"

text \<open>
  The environment of a run of this variant has, besides that of \<^verbatim>\<open>main.go\<close>, the
  absolute root path, the error of \<^verbatim>\<open>os.Stat\<close> on the path of the ignore file if
  there is one, and what \<^verbatim>\<open>gitignore.CompileIgnoreFile\<close> returns for that path: an
  error, or the compiled rules, by their method \<^verbatim>\<open>MatchesPath\<close>.
\<close>

record env_gi = env +
  absRootDir :: string
  ignoreFileStat :: "os_error option"
  ignoreFileCompiled :: "os_error + (string \<Rightarrow> bool)"

definition skipReport_gi :: "string list \<Rightarrow> log_line list" where
  "skipReport_gi skipped =
     (if 0 < length skipped
      then SkippedFilesDirsHeader (length skipped) # map SkippedItem (sort skipped) @ [BlankLine]
      else [])"

definition copiedReport :: "bool \<Rightarrow> fileData list \<Rightarrow> log_line list" where
  "copiedReport verbose fs =
     (if verbose \<and> 0 < length fs
      then CopiedHeader (length fs) # map (\<lambda>f. CopiedItem (path f)) fs @ [BlankLine]
      else [])"

text \<open>
  \<^verbatim>\<open>main\<close> of this variant, from the parsed flags on. The values of \<^verbatim>\<open>-g\<close> and
  \<^verbatim>\<open>-v\<close>, which the other variants do not have, are the parameters
  \<open>gitignorePath\<close> and \<open>verbose\<close>. The slice is sorted before the reports are
  written, so the files that \<^verbatim>\<open>-v\<close> lists are in the sorted order as well.
\<close>

definition main_gi :: "flags \<Rightarrow> string \<Rightarrow> bool \<Rightarrow> env_gi \<Rightarrow> outcome" where
  "main_gi fl gitignorePath verbose ev =
     (if useClaudeXML fl \<and> useMarkdown fl
      then \<lparr>exitCode = 1, stdout = [], stderr = [FatalBothFormats]\<rparr>
      else if length (positionalArgs ev) > 1
      then \<lparr>exitCode = 1, stdout = [], stderr = [FatalTooManyArgs]\<rparr>
      else
        (case absError ev of
           Some e \<Rightarrow> \<lparr>exitCode = 1, stdout = [], stderr = [FatalAbs (rootDir ev) e]\<rparr>
         | None \<Rightarrow>
             let ignorePath =
                   (if gitignorePath = [] then Join (absRootDir ev) ''.gitignore''
                    else gitignorePath)
             in
             (case (case ignoreFileStat ev of
                      None \<Rightarrow>
                        (case ignoreFileCompiled ev of
                           Inl e \<Rightarrow> Inl e
                         | Inr matchesPath \<Rightarrow> Inr (Some matchesPath, [UsingIgnoreFile ignorePath]))
                    | Some e \<Rightarrow> Inr (None, [NoIgnoreFile])) of
                Inl e \<Rightarrow>
                  \<lparr>exitCode = 1, stdout = [], stderr = [FatalCompileIgnore ignorePath e]\<rparr>
              | Inr (ignorer, logged) \<Rightarrow>
                  (case WalkDir (walkFn_gi ignorer fl) (rootName ev) (rootEntry ev)
                          \<lparr>files = [], skippedFiles = []\<rparr> of
                     (Some e, st) \<Rightarrow>
                       \<lparr>exitCode = 1, stdout = [],
                        stderr = logged @ [FatalWalk (rootDir ev) e]\<rparr>
                   | (None, st) \<Rightarrow>
                       let sorted_files = sortFiles (files st);
                           report = skipReport_gi (skippedFiles st)
                                      @ copiedReport verbose sorted_files
                       in
                       if length sorted_files = 0
                       then \<lparr>exitCode = 0, stdout = [],
                             stderr = logged @ report @ [NoFilesMatched]\<rparr>
                       else
                         \<lparr>exitCode = 0,
                          stdout =
                            (if useClaudeXML fl
                             then buildClaudeXML Join sorted_files (prependPath fl)
                             else if useMarkdown fl
                             then buildMarkdown_gi Join sorted_files (prependPath fl)
                             else buildStandardText Join sorted_files (prependPath fl)),
                          stderr = logged @ report @ [Ingested (length sorted_files)]\<rparr>))))"

section \<open>The notions the claims speak of\<close>

text \<open>
  What \<^verbatim>\<open>sort.Slice\<close> promises of its result \<open>ys\<close> for the slice \<open>xs\<close>: the same
  elements, and no element is less than one that stands before it.
\<close>

definition sliceSorted :: "('a \<Rightarrow> 'a \<Rightarrow> bool) \<Rightarrow> 'a list \<Rightarrow> 'a list \<Rightarrow> bool" where
  "sliceSorted lessFn xs ys \<longleftrightarrow> mset ys = mset xs \<and> sorted_wrt (\<lambda>a b. \<not> lessFn b a) ys"

text \<open>
  The regular files under the root that are not inside a pruned subtree, each by its
  relative path and with what \<^verbatim>\<open>d.Info()\<close> returns for it: a directory is pruned when
  it has one of the four reserved names or an exclude pattern matches its relative path.
  This definition follows the wording of the claim, not the walk.
\<close>

fun reachedFiles ::
    "flags \<Rightarrow> string \<Rightarrow> string \<Rightarrow> fsnode \<Rightarrow> (string \<times> (os_error + int)) list"
  and reachedIn ::
    "flags \<Rightarrow> string \<Rightarrow> (string \<times> fsnode) list \<Rightarrow> (string \<times> (os_error + int)) list" where
  "reachedFiles fl relPath name (RegularFile info bytes) = [(relPath, info)]"
| "reachedFiles fl relPath name Irregular = []"
| "reachedFiles fl relPath name (Directory rderr entries) =
     (if vcsName name \<or> excluded fl relPath then [] else reachedIn fl relPath entries)"
| "reachedIn fl parent [] = []"
| "reachedIn fl parent ((name, d) # ds) =
     reachedFiles fl (childRel parent name) name d @ reachedIn fl parent ds"

text \<open>
  A path is accounted for in a state when a collected file has it or an entry of
  \<^verbatim>\<open>skippedFiles\<close> is that path with a reason.
\<close>

definition recorded :: "walk_state \<Rightarrow> string \<Rightarrow> bool" where
  "recorded st p \<longleftrightarrow>
     (\<exists>f \<in> set (files st). path f = p) \<or> (\<exists>reason. skipEntry p reason \<in> set (skippedFiles st))"

text \<open>
  A file that the include patterns of the user leave out after it has passed the checks
  before the include decision: include patterns were given, no exclude pattern matches
  the path, \<^verbatim>\<open>d.Info()\<close> gave a size that passes the size checks (it is not above
  the limit and it is not zero), and no include pattern matches the path.
\<close>

definition unmatchedByIncludes :: "flags \<Rightarrow> string \<Rightarrow> os_error + int \<Rightarrow> bool" where
  "unmatchedByIncludes fl relPath info \<longleftrightarrow>
     includes_i fl \<noteq> [] \<and> \<not> excluded fl relPath
     \<and> (case info of Inl e \<Rightarrow> False | Inr sz \<Rightarrow> \<not> sz > maxSizeBytes fl \<and> sz \<noteq> 0)
     \<and> \<not> isIncluded fl relPath"






section \<open>Concrete inputs\<close>

text \<open>The defaults of the flags, as \<^verbatim>\<open>main\<close> declares them.\<close>

definition defaultFlags :: flags where
  "defaultFlags =
     \<lparr>sizeLimitKB = 25, useClaudeXML = False, useMarkdown = False, prependPath = [],
      includes_i = [], excludes_e = [], langOnly = False, excludeExts = []\<rparr>"

definition emptyState :: walk_state where
  "emptyState = \<lparr>files = [], skippedFiles = []\<rparr>"

definition blob :: "nat \<Rightarrow> string" where
  "blob n = replicate n (CHR ''x'')"

definition envOf :: "fsnode \<Rightarrow> env" where
  "envOf tree =
     \<lparr>positionalArgs = [], absError = None, rootName = ''project'', rootEntry = Inr tree\<rparr>"

definition treeWithUnreadableDir :: fsnode where
  "treeWithUnreadableDir =
     Directory None
       [(''a.go'', RegularFile (Inr 10) (Inr (blob 10))),
        (''secret'', Directory (Some PermissionDenied) [])]"

definition treeWithoutMatches :: fsnode where
  "treeWithoutMatches =
     Directory None
       [(''b.bin'', RegularFile (Inr 7) (Inr (blob 7))),
        (''empty.go'', RegularFile (Inr 0) (Inr []))]"

definition readmeTree :: fsnode where
  "readmeTree =
     Directory None
       [(''a.go'', RegularFile (Inr 9) (Inr ''package a'')),
        (''z'', Directory None [(''ReadMe.MD'', RegularFile (Inr 4) (Inr ''deep''))])]"

definition envOf_gi :: "fsnode \<Rightarrow> env_gi" where
  "envOf_gi tree =
     \<lparr>positionalArgs = [], absError = None, rootName = ''project'', rootEntry = Inr tree,
      absRootDir = ''/home/project'', ignoreFileStat = Some NotExist,
      ignoreFileCompiled = Inl NotExist\<rparr>"

definition notesTree :: fsnode where
  "notesTree = Directory None [(''notes.md'', RegularFile (Inr 5) (Inr ''hello''))]"

definition collectedFiles :: "fileData list" where
  "collectedFiles =
     [\<lparr>path = ''a.go'', content = ''package a''\<rparr>,
      \<lparr>path = ''z/deep/ReadMe.MD'', content = ''deep''\<rparr>,
      \<lparr>path = ''Z.go'', content = ''package z''\<rparr>,
      \<lparr>path = ''README.md'', content = ''top''\<rparr>]"

definition sampleTree :: fsnode where
  "sampleTree =
     Directory None
       [(''README.md'', RegularFile (Inr 5) (Inr ''hello'')),
        (''a.go'', RegularFile (Inr 10) (Inr (blob 10))),
        (''b.bin'', RegularFile (Inr 7) (Inr (blob 7))),
        (''link'', Irregular),
        (''node_modules'', Directory None [(''x.js'', RegularFile (Inr 10) (Inr (blob 10)))]),
        (''sub'', Directory None [(''empty.txt'', RegularFile (Inr 0) (Inr []))])]"

definition sampleState :: walk_state where
  "sampleState =
     \<lparr>files = [\<lparr>path = ''README.md'', content = ''hello''\<rparr>, \<lparr>path = ''a.go'', content = blob 10\<rparr>],
      skippedFiles = [''b.bin (unsupported extension)'', ''sub/empty.txt (empty)'']\<rparr>"

section \<open>Evaluation of concrete runs\<close>

lemmas match_eval =
  matched_def Match.simps scanChunk_def matchChunk_def classRanges.simps
  getEsc_def Separator_def backslash_def RuneError_def Let_def

lemmas walk_eval =
  excluded_def isIncluded_def defaultExtensions_def ToLower_def lowerByte_def Ext_def
  maxSizeBytes_def wrap64_def skip_def accept_def skipEntry_def defaultFlags_def
  emptyState_def vcsName_def char_of_def bit_Suc_0_iff Separator_def



lemma not_matched_star_go_md: "\<not> matched ''*.go'' ''notes.md''"
  by (simp add: match_eval)

section \<open>The include patterns and the default extensions\<close>




section \<open>The size limit\<close>

text \<open>
  C8. Let \<open>L\<close> be the size limit in bytes, \<^verbatim>\<open>maxSizeBytes\<close>. In \<^verbatim>\<open>main.go\<close> and in
  the ignore-file variant: a file of exactly \<open>L\<close> bytes that passes the other checks
  (the name-based filters, the emptiness check, which is \<open>0 < L\<close> for such a file, and the
  read) is appended to \<^verbatim>\<open>files\<close>; a file of \<open>L + 1\<close> bytes is never appended, and
  once it has passed the name-based filters that precede the size check it is recorded as
  too large; a file of zero bytes is never appended, whatever its name, the include
  patterns and the other flags are.
\<close>

theorem size_limit_boundary:
  "(\<not> excluded fl relPath \<and> isIncluded fl relPath \<and> 0 < maxSizeBytes fl \<longrightarrow>
      walkFn fl relPath name (RegularFile (Inr (maxSizeBytes fl)) (Inr c)) None st
        = (RetNil, accept relPath c st))
   \<and> (\<not> excluded fl relPath \<longrightarrow>
      walkFn fl relPath name (RegularFile (Inr (maxSizeBytes fl + 1)) bytes) None st
        = (RetNil, skip relPath (TooLarge (maxSizeBytes fl + 1) (sizeLimitKB fl)) st))
   \<and> files (snd (walkFn fl relPath name (RegularFile (Inr (maxSizeBytes fl + 1)) bytes) None st))
        = files st
   \<and> files (snd (walkFn fl relPath name (RegularFile (Inr 0) bytes) None st)) = files st
   \<and> (relPath \<noteq> ''.'' \<and> \<not> ignored ig relPath \<and> \<not> excludedExtsMap fl (ToLower (Ext relPath))
        \<and> \<not> (langOnly fl \<and> ToLower (Ext relPath) \<notin> set languageExtMap_gi)
        \<and> 0 < maxSizeBytes fl \<longrightarrow>
      walkFn_gi ig fl relPath name (RegularFile (Inr (maxSizeBytes fl)) (Inr c)) None st
        = (RetNil, accept relPath c st))
   \<and> (relPath \<noteq> ''.'' \<and> \<not> ignored ig relPath \<and> \<not> excludedExtsMap fl (ToLower (Ext relPath))
        \<and> \<not> (langOnly fl \<and> ToLower (Ext relPath) \<notin> set languageExtMap_gi) \<longrightarrow>
      walkFn_gi ig fl relPath name (RegularFile (Inr (maxSizeBytes fl + 1)) bytes) None st
        = (RetNil, skip relPath (TooLarge (maxSizeBytes fl + 1) (sizeLimitKB fl)) st))
   \<and> files (snd (walkFn_gi ig fl relPath name (RegularFile (Inr (maxSizeBytes fl + 1)) bytes) None st))
        = files st
   \<and> files (snd (walkFn_gi ig fl relPath name (RegularFile (Inr 0) bytes) None st)) = files st"
proof -
  have over: "files (snd (walkFn fl relPath name (RegularFile (Inr (maxSizeBytes fl + 1)) bytes) None st))
      = files st"
    by (simp add: skip_def)
  have zero: "files (snd (walkFn fl relPath name (RegularFile (Inr 0) bytes) None st)) = files st"
    by (simp add: skip_def)
  have over_gi:
    "files (snd (walkFn_gi ig fl relPath name (RegularFile (Inr (maxSizeBytes fl + 1)) bytes) None st))
      = files st"
    by (simp add: skip_def Let_def)
  have zero_gi:
    "files (snd (walkFn_gi ig fl relPath name (RegularFile (Inr 0) bytes) None st)) = files st"
    by (simp add: skip_def Let_def)
  show ?thesis
    using over zero over_gi zero_gi by (simp add: Let_def)
qed

text \<open>
  With the default limit of 25 KB: a file \<^verbatim>\<open>a.go\<close> of 25600 bytes is kept, one of
  25601 bytes is recorded as too large, and one of zero bytes is recorded as empty.
\<close>

lemmas format_eval = reasonText.simps formatInt_def quo_def digits.simps [of 25] digits.simps [of 2]

theorem size_limit_boundary_witness:
  "\<not> excluded defaultFlags ''a.go'' \<and> isIncluded defaultFlags ''a.go''
   \<and> 0 < maxSizeBytes defaultFlags
   \<and> walkFn defaultFlags ''a.go'' ''a.go'' (RegularFile (Inr 25600) (Inr (blob 25600))) None emptyState
       = (RetNil, \<lparr>files = [\<lparr>path = ''a.go'', content = blob 25600\<rparr>], skippedFiles = []\<rparr>)
   \<and> walkFn defaultFlags ''a.go'' ''a.go'' (RegularFile (Inr 25601) (Inr (blob 25601))) None emptyState
       = (RetNil, \<lparr>files = [], skippedFiles = [''a.go (too large: 25KB > 25KB)'']\<rparr>)
   \<and> walkFn defaultFlags ''a.go'' ''a.go'' (RegularFile (Inr 0) (Inr [])) None emptyState
       = (RetNil, \<lparr>files = [], skippedFiles = [''a.go (empty)'']\<rparr>)
   \<and> walkFn_gi None defaultFlags ''a.go'' ''a.go'' (RegularFile (Inr 25600) (Inr (blob 25600))) None
        emptyState
       = (RetNil, \<lparr>files = [\<lparr>path = ''a.go'', content = blob 25600\<rparr>], skippedFiles = []\<rparr>)
   \<and> walkFn_gi None defaultFlags ''a.go'' ''a.go'' (RegularFile (Inr 25601) (Inr (blob 25601))) None
        emptyState
       = (RetNil, \<lparr>files = [], skippedFiles = [''a.go (too large: 25KB > 25KB)'']\<rparr>)"
  using size_limit_boundary
      [of defaultFlags "''a.go''" "''a.go''" "blob 25600" emptyState "Inr (blob 25601)" None]
    size_limit_boundary
      [of defaultFlags "''a.go''" "''a.go''" "blob 25600" emptyState "Inr []" None]
  by (simp add: walk_eval format_eval ignored_def excludedExtsMap_def)

section \<open>Where the size checks stand in the pipeline\<close>

text \<open>
  C1 says that the size and emptiness checks come after every name-based filter, the
  include patterns and the default-extension check among them. In \<^verbatim>\<open>main.go\<close> they
  come after the exclude patterns and before the include decision: with the default
  flags, \<^verbatim>\<open>b.bin\<close> is a file that the default-extension check rejects, and yet its
  size is looked at and it is recorded as empty when it has no bytes and as too large when
  it has 30000.
\<close>

theorem size_checked_before_include_decision:
  "\<not> isIncluded defaultFlags ''b.bin''
   \<and> walkFn defaultFlags ''b.bin'' ''b.bin'' (RegularFile (Inr 0) (Inr [])) None emptyState
       = (RetNil, \<lparr>files = [], skippedFiles = [''b.bin (empty)'']\<rparr>)
   \<and> walkFn defaultFlags ''b.bin'' ''b.bin'' (RegularFile (Inr 30000) (Inr (blob 30000))) None
        emptyState
       = (RetNil, \<lparr>files = [], skippedFiles = [''b.bin (too large: 29KB > 25KB)'']\<rparr>)
   \<and> walkFn defaultFlags ''b.bin'' ''b.bin'' (RegularFile (Inr 7) (Inr (blob 7))) None emptyState
       = (RetNil, \<lparr>files = [], skippedFiles = [''b.bin (unsupported extension)'']\<rparr>)"
  by (simp add: walk_eval format_eval digits.simps [of 29])

text \<open>
  C1, amended. In \<^verbatim>\<open>main.go\<close> a file that an exclude pattern matches is recorded as
  excluded by pattern whatever \<^verbatim>\<open>d.Info()\<close> and \<^verbatim>\<open>os.ReadFile\<close> would return: its
  size is not looked at. A file that no exclude pattern matches is recorded as too large
  or as empty by its size alone, whatever the include decision for it would be. In the
  ignore-file variant, whose name-based filters are the
  ignore file, \<^verbatim>\<open>-xe\<close> and \<^verbatim>\<open>-x\<close>, the size checks are the last ones: a file,
  other than the root of the walk, that one of these filters rejects is recorded with
  that filter's reason, whatever its size and content are.
\<close>

theorem size_checks_after_exclude_filters:
  "(excluded fl relPath \<longrightarrow>
      walkFn fl relPath name (RegularFile info bytes) None st
        = (RetNil, skip relPath ExcludedByPattern st))
   \<and> (\<not> excluded fl relPath \<and> maxSizeBytes fl < sz \<longrightarrow>
      walkFn fl relPath name (RegularFile (Inr sz) bytes) None st
        = (RetNil, skip relPath (TooLarge sz (sizeLimitKB fl)) st))
   \<and> (\<not> excluded fl relPath \<and> 0 \<le> maxSizeBytes fl \<longrightarrow>
      walkFn fl relPath name (RegularFile (Inr 0) bytes) None st
        = (RetNil, skip relPath Empty st))
   \<and> (relPath \<noteq> ''.'' \<and> ignored ig relPath \<longrightarrow>
      walkFn_gi ig fl relPath name (RegularFile info bytes) None st
        = (RetNil, skip relPath ExcludedByIgnoreFile st))
   \<and> (relPath \<noteq> ''.'' \<and> \<not> ignored ig relPath \<and> excludedExtsMap fl (ToLower (Ext relPath)) \<longrightarrow>
      walkFn_gi ig fl relPath name (RegularFile info bytes) None st
        = (RetNil, skip relPath ExtensionExcluded st))
   \<and> (relPath \<noteq> ''.'' \<and> \<not> ignored ig relPath \<and> \<not> excludedExtsMap fl (ToLower (Ext relPath))
        \<and> langOnly fl \<and> ToLower (Ext relPath) \<notin> set languageExtMap_gi \<longrightarrow>
      walkFn_gi ig fl relPath name (RegularFile info bytes) None st
        = (RetNil, skip relPath NotRecognizedSource st))"
  by (simp add: Let_def)

lemma matched_star_test_go: "matched ''*.test.go'' ''a.test.go''"
  by (simp add: match_eval)

theorem size_checks_after_exclude_filters_witness:
  "excluded (defaultFlags\<lparr>excludes_e := [''*.test.go'']\<rparr>) ''a.test.go''
   \<and> walkFn (defaultFlags\<lparr>excludes_e := [''*.test.go'']\<rparr>) ''a.test.go'' ''a.test.go''
        (RegularFile (Inr 0) (Inl NotExist)) None emptyState
       = (RetNil, \<lparr>files = [], skippedFiles = [''a.test.go (excluded by pattern)'']\<rparr>)
   \<and> \<not> excluded defaultFlags ''b.bin'' \<and> maxSizeBytes defaultFlags < 30000
   \<and> walkFn defaultFlags ''b.bin'' ''b.bin'' (RegularFile (Inr 30000) (Inl NotExist)) None
        emptyState
       = (RetNil, \<lparr>files = [], skippedFiles = [''b.bin (too large: 29KB > 25KB)'']\<rparr>)
   \<and> walkFn defaultFlags ''b.bin'' ''b.bin'' (RegularFile (Inr 0) (Inl NotExist)) None emptyState
       = (RetNil, \<lparr>files = [], skippedFiles = [''b.bin (empty)'']\<rparr>)
   \<and> ignored (Some (\<lambda>p. p = ''a.log'')) ''a.log''
   \<and> walkFn_gi (Some (\<lambda>p. p = ''a.log'')) defaultFlags ''a.log'' ''a.log''
        (RegularFile (Inr 0) (Inl NotExist)) None emptyState
       = (RetNil, \<lparr>files = [], skippedFiles = [''a.log (excluded by ignore file)'']\<rparr>)
   \<and> excludedExtsMap (defaultFlags\<lparr>excludeExts := [''LOG'']\<rparr>) (ToLower (Ext ''a.log''))
   \<and> walkFn_gi None (defaultFlags\<lparr>excludeExts := [''LOG'']\<rparr>) ''a.log'' ''a.log''
        (RegularFile (Inr 0) (Inl NotExist)) None emptyState
       = (RetNil, \<lparr>files = [], skippedFiles = [''a.log (extension excluded by -xe)'']\<rparr>)
   \<and> ToLower (Ext ''a.log'') \<notin> set languageExtMap_gi
   \<and> walkFn_gi None (defaultFlags\<lparr>langOnly := True\<rparr>) ''a.log'' ''a.log''
        (RegularFile (Inr 0) (Inl NotExist)) None emptyState
       = (RetNil,
          \<lparr>files = [], skippedFiles = [''a.log (not a recognized source file with -x)'']\<rparr>)"
  using size_checks_after_exclude_filters
      [where fl = "defaultFlags\<lparr>excludes_e := [''*.test.go'']\<rparr>" and relPath = "''a.test.go''"
        and name = "''a.test.go''" and info = "Inr 0" and bytes = "Inl NotExist"
        and st = emptyState and sz = 0 and ig = None]
    size_checks_after_exclude_filters
      [where fl = defaultFlags and relPath = "''b.bin''" and name = "''b.bin''"
        and info = "Inr 0" and bytes = "Inl NotExist" and st = emptyState and sz = 30000
        and ig = None]
    size_checks_after_exclude_filters
      [where fl = defaultFlags and relPath = "''a.log''" and name = "''a.log''"
        and info = "Inr 0" and bytes = "Inl NotExist" and st = emptyState and sz = 0
        and ig = "Some (\<lambda>p. p = ''a.log'')"]
    size_checks_after_exclude_filters
      [where fl = "defaultFlags\<lparr>excludeExts := [''LOG'']\<rparr>" and relPath = "''a.log''"
        and name = "''a.log''" and info = "Inr 0" and bytes = "Inl NotExist"
        and st = emptyState and sz = 0 and ig = None]
    size_checks_after_exclude_filters
      [where fl = "defaultFlags\<lparr>langOnly := True\<rparr>" and relPath = "''a.log''"
        and name = "''a.log''" and info = "Inr 0" and bytes = "Inl NotExist"
        and st = emptyState and sz = 0 and ig = None]
    matched_star_test_go
  by (simp add: walk_eval format_eval digits.simps [of 29] ignored_def excludedExtsMap_def
      normalizeExt_def languageExtMap_gi_def)

section \<open>Pruned directories\<close>

text \<open>
  A directory for which the callback returns \<^verbatim>\<open>SkipDir\<close> is not read: the walk of
  it ends with the state the callback left, whatever the directory holds. This is a
  property of \<^verbatim>\<open>walkDir\<close>, for every callback.
\<close>

lemma walkDir_SkipDir:
  "fn relPath name (Directory rderr entries) None st = (RetSkipDir, st1)
    \<Longrightarrow> walkDir fn relPath name (Directory rderr entries) st = (RetNil, st1)"
  by simp

text \<open>
  C3 says that every directory with one of the four reserved names is pruned. The
  callback of the ignore-file variant returns nil for the root of the walk before it
  looks at the name (the unnamed source file of 315 lines, lines 144 to 146), so a root
  named \<^verbatim>\<open>.git\<close> is walked, and a file in it is read and accepted; \<^verbatim>\<open>main.go\<close> and
  the first variant prune that root.
\<close>

theorem reserved_root_walked_by_ignore_file_variant:
  "vcsName ''.git''
   \<and> WalkDir (walkFn_gi None defaultFlags) ''.git''
        (Inr (Directory None [(''notes.txt'', RegularFile (Inr 5) (Inr ''hello''))])) emptyState
       = (None, \<lparr>files = [\<lparr>path = ''notes.txt'', content = ''hello''\<rparr>], skippedFiles = []\<rparr>)
   \<and> WalkDir (walkFn defaultFlags) ''.git''
        (Inr (Directory None [(''notes.txt'', RegularFile (Inr 5) (Inr ''hello''))])) emptyState
       = (None, emptyState)
   \<and> WalkDir (walkFn_v1 defaultFlags) ''.git''
        (Inr (Directory None [(''notes.txt'', RegularFile (Inr 5) (Inr ''hello''))])) []
       = (None, [])"
  by (simp add: WalkDir_def childRel_def walk_eval excludedExtsMap_def ignored_def)

text \<open>
  C3, amended. In \<^verbatim>\<open>main.go\<close> and in the first variant, a directory named
  \<^verbatim>\<open>.git\<close>, \<^verbatim>\<open>.hg\<close>, \<^verbatim>\<open>.svn\<close> or \<^verbatim>\<open>node_modules\<close>, the root of the walk
  included, is pruned whatever the flags are, so before any rule of the user is looked
  at: the walk of it returns at once and leaves the state as it was, whatever the
  directory holds. In the ignore-file variant this holds for every such directory other
  than the root of the walk, whatever the ignore file and the flags are; the root is
  never pruned there, whatever its name is: its entries are walked, or the error of
  reading it ends the walk. The same holds for a directory pruned by a rule of the user
  (an exclude pattern in \<^verbatim>\<open>main.go\<close> and in the first variant, the ignore file in the
  ignore-file variant, which records the directory itself and nothing below it): no file
  below a pruned directory is visited, read, accepted or recorded.
\<close>

theorem vcs_directories_pruned_first:
  "(vcsName name \<longrightarrow>
      walkDir (walkFn fl) relPath name (Directory rderr entries) st = (RetNil, st))
   \<and> (excluded fl relPath \<longrightarrow>
      walkDir (walkFn fl) relPath name (Directory rderr entries) st = (RetNil, st))
   \<and> (vcsName name \<or> excluded fl relPath \<longrightarrow>
      walkDir (walkFn_v1 fl) relPath name (Directory rderr entries) fs = (RetNil, fs))
   \<and> (vcsName name \<and> relPath \<noteq> ''.'' \<longrightarrow>
      walkDir (walkFn_gi ig fl) relPath name (Directory rderr entries) st = (RetNil, st))
   \<and> (\<not> vcsName name \<and> relPath \<noteq> ''.'' \<and> ignored ig relPath \<longrightarrow>
      walkDir (walkFn_gi ig fl) relPath name (Directory rderr entries) st
        = (RetNil, skip (relPath @ ''/'') ExcludedByIgnoreFile st))
   \<and> walkDir (walkFn_gi ig fl) ''.'' name (Directory rderr entries) st
        = (case rderr of
             None \<Rightarrow> walkEntries (walkFn_gi ig fl) ''.'' entries st
           | Some e \<Rightarrow> (RetErr e, st))"
  by (simp split: option.split)

lemma matched_node_modules_star: "matched ''node_modules/*'' ''node_modules/x.js''"
  by (simp add: match_eval)

lemma matched_build: "matched ''build'' ''build''"
  by (simp add: match_eval)

text \<open>
  The pattern \<^verbatim>\<open>-i "node_modules/*"\<close> matches \<^verbatim>\<open>node_modules/x.js\<close>, and the file
  is not reached all the same; \<^verbatim>\<open>-e build\<close> prunes the directory \<^verbatim>\<open>build\<close>.
\<close>

theorem vcs_directories_pruned_first_witness:
  "vcsName ''node_modules''
   \<and> isIncluded (defaultFlags\<lparr>includes_i := [''node_modules/*'']\<rparr>) ''node_modules/x.js''
   \<and> walkDir (walkFn (defaultFlags\<lparr>includes_i := [''node_modules/*'']\<rparr>)) ''node_modules''
        ''node_modules'' (Directory None [(''x.js'', RegularFile (Inr 10) (Inr (blob 10)))])
        emptyState = (RetNil, emptyState)
   \<and> walkDir (walkFn_v1 (defaultFlags\<lparr>includes_i := [''node_modules/*'']\<rparr>)) ''node_modules''
        ''node_modules'' (Directory None [(''x.js'', RegularFile (Inr 10) (Inr (blob 10)))])
        [] = (RetNil, [])
   \<and> walkDir (walkFn_gi None defaultFlags) ''node_modules''
        ''node_modules'' (Directory None [(''x.js'', RegularFile (Inr 10) (Inr (blob 10)))])
        emptyState = (RetNil, emptyState)
   \<and> excluded (defaultFlags\<lparr>excludes_e := [''build'']\<rparr>) ''build''
   \<and> walkDir (walkFn (defaultFlags\<lparr>excludes_e := [''build'']\<rparr>)) ''build'' ''build''
        (Directory None [(''x.js'', RegularFile (Inr 10) (Inr (blob 10)))]) emptyState
       = (RetNil, emptyState)
   \<and> ignored (Some (\<lambda>p. p = ''build'')) ''build''
   \<and> walkDir (walkFn_gi (Some (\<lambda>p. p = ''build'')) defaultFlags) ''build'' ''build''
        (Directory None [(''x.js'', RegularFile (Inr 10) (Inr (blob 10)))]) emptyState
       = (RetNil, \<lparr>files = [], skippedFiles = [''build/ (excluded by ignore file)'']\<rparr>)
   \<and> walkDir (walkFn_gi None defaultFlags) ''.'' ''node_modules''
        (Directory None [(''x.js'', RegularFile (Inr 10) (Inr (blob 10)))]) emptyState
       = walkEntries (walkFn_gi None defaultFlags) ''.''
           [(''x.js'', RegularFile (Inr 10) (Inr (blob 10)))] emptyState"
  using vcs_directories_pruned_first
      [of "''node_modules''" "defaultFlags\<lparr>includes_i := [''node_modules/*'']\<rparr>"
        "''node_modules''" None "[(''x.js'', RegularFile (Inr 10) (Inr (blob 10)))]" emptyState
        "[]" None]
    vcs_directories_pruned_first
      [of "''node_modules''" defaultFlags
        "''node_modules''" None "[(''x.js'', RegularFile (Inr 10) (Inr (blob 10)))]" emptyState
        "[]" None]
    vcs_directories_pruned_first
      [of "''build''" "defaultFlags\<lparr>excludes_e := [''build'']\<rparr>"
        "''build''" None "[(''x.js'', RegularFile (Inr 10) (Inr (blob 10)))]" emptyState
        "[]" "Some (\<lambda>p. p = ''build'')"]
    matched_node_modules_star matched_build
  by (simp add: walk_eval ignored_def)

section \<open>Errors during the walk\<close>

text \<open>
  C5 says that no error on a single entry ends the run. A directory that cannot be read
  does: \<^verbatim>\<open>WalkDir\<close> reports the error of \<^verbatim>\<open>os.ReadDir\<close> to the callback, the
  callback returns it (\<^verbatim>\<open>if err != nil { return err }\<close>), the walk stops and
  \<^verbatim>\<open>main\<close> exits with status 1 and no output, though the root holds the readable
  file \<^verbatim>\<open>a.go\<close>.
\<close>

theorem unreadable_directory_ends_run:
  "main defaultFlags (envOf treeWithUnreadableDir)
     = \<lparr>exitCode = 1, stdout = [], stderr = [FatalWalk ''.'' PermissionDenied]\<rparr>"
  by (simp add: main_def WalkDir_def envOf_def treeWithUnreadableDir_def rootDir_def childRel_def
      walk_eval)

text \<open>
  C5, amended. For a regular file, an error of \<^verbatim>\<open>d.Info()\<close> and an error of
  \<^verbatim>\<open>os.ReadFile\<close> are recorded in \<^verbatim>\<open>skippedFiles\<close> for that file alone; the
  callback returns nil for every regular file, so the walk goes on with the next entry of
  the directory. An error that \<^verbatim>\<open>WalkDir\<close> itself reports for an entry that is not
  pruned (a directory that cannot be read, a root that cannot be found) is returned by the
  callback, and so is the error of the walk: \<^verbatim>\<open>main\<close> then exits with status 1.
\<close>

theorem file_errors_recorded_walk_goes_on:
  "(\<not> excluded fl relPath \<longrightarrow>
      walkFn fl relPath name (RegularFile (Inl e) bytes) None st
        = (RetNil, skip relPath ErrorGettingInfo st))
   \<and> (\<not> excluded fl relPath \<and> 0 < sz \<and> sz \<le> maxSizeBytes fl \<and> isIncluded fl relPath \<longrightarrow>
      walkFn fl relPath name (RegularFile (Inr sz) (Inl e)) None st
        = (RetNil, skip relPath Unreadable st))
   \<and> fst (walkFn fl relPath name (RegularFile info bytes) None st) = RetNil
   \<and> walkEntries (walkFn fl) parent ((name, RegularFile info bytes) # ds) st
        = walkEntries (walkFn fl) parent ds
            (snd (walkFn fl (childRel parent name) name (RegularFile info bytes) None st))
   \<and> (\<not> vcsName name \<and> \<not> excluded fl relPath \<longrightarrow>
        walkDir (walkFn fl) relPath name (Directory (Some e) entries) st = (RetErr e, st))
   \<and> WalkDir (walkFn fl) name (Inl e) st = (Some e, st)
   \<and> (\<not> (useClaudeXML fl \<and> useMarkdown fl) \<and> length (positionalArgs ev) \<le> 1
        \<and> absError ev = None
        \<and> fst (WalkDir (walkFn fl) (rootName ev) (rootEntry ev) emptyState) = Some e \<longrightarrow>
        main fl ev = \<lparr>exitCode = 1, stdout = [], stderr = [FatalWalk (rootDir ev) e]\<rparr>)"
proof -
  have ret: "fst (walkFn fl r name (RegularFile info bytes) None st) = RetNil" for r
    by (simp split: sum.splits)
  have step: "walkEntries (walkFn fl) parent ((name, RegularFile info bytes) # ds) st
      = walkEntries (walkFn fl) parent ds
          (snd (walkFn fl (childRel parent name) name (RegularFile info bytes) None st))"
    using ret [of "childRel parent name"]
    by (cases "walkFn fl (childRel parent name) name (RegularFile info bytes) None st") simp
  have fatal: "\<not> (useClaudeXML fl \<and> useMarkdown fl) \<and> length (positionalArgs ev) \<le> 1
        \<and> absError ev = None
        \<and> fst (WalkDir (walkFn fl) (rootName ev) (rootEntry ev) emptyState) = Some e \<longrightarrow>
        main fl ev = \<lparr>exitCode = 1, stdout = [], stderr = [FatalWalk (rootDir ev) e]\<rparr>"
    by (cases "WalkDir (walkFn fl) (rootName ev) (rootEntry ev) emptyState")
      (auto simp: main_def emptyState_def)
  show ?thesis
    using ret [of relPath] step fatal by (simp add: WalkDir_def)
qed

theorem file_errors_recorded_walk_goes_on_witness:
  "walkFn defaultFlags ''a.go'' ''a.go'' (RegularFile (Inl NotExist) (Inl NotExist)) None emptyState
     = (RetNil, \<lparr>files = [], skippedFiles = [''a.go (error getting info)'']\<rparr>)
   \<and> walkFn defaultFlags ''a.go'' ''a.go'' (RegularFile (Inr 10) (Inl PermissionDenied)) None
        emptyState
     = (RetNil, \<lparr>files = [], skippedFiles = [''a.go (unreadable)'']\<rparr>)
   \<and> walkEntries (walkFn defaultFlags) ''.''
        [(''a.go'', RegularFile (Inr 10) (Inl PermissionDenied)),
         (''b.go'', RegularFile (Inr 3) (Inr (blob 3)))] emptyState
     = (RetNil,
        \<lparr>files = [\<lparr>path = ''b.go'', content = blob 3\<rparr>],
           skippedFiles = [''a.go (unreadable)'']\<rparr>)
   \<and> walkDir (walkFn defaultFlags) ''secret'' ''secret'' (Directory (Some PermissionDenied) [])
        emptyState = (RetErr PermissionDenied, emptyState)
   \<and> WalkDir (walkFn defaultFlags) ''secret'' (Inl PermissionDenied) emptyState
       = (Some PermissionDenied, emptyState)
   \<and> fst (WalkDir (walkFn defaultFlags) (rootName (envOf treeWithUnreadableDir))
        (rootEntry (envOf treeWithUnreadableDir)) emptyState) = Some PermissionDenied
   \<and> exitCode (main defaultFlags (envOf treeWithUnreadableDir)) = 1"
  using file_errors_recorded_walk_goes_on
      [of defaultFlags "''a.go''" "''a.go''" NotExist "Inl NotExist" emptyState 10 "Inl NotExist"
        "''.''" "[]" "[]" "envOf treeWithUnreadableDir"]
    file_errors_recorded_walk_goes_on
      [of defaultFlags "''secret''" "''secret''" PermissionDenied "Inl NotExist" emptyState 10
        "Inl NotExist" "''.''" "[]" "[]" "envOf treeWithUnreadableDir"]
  by (simp add: WalkDir_def envOf_def treeWithUnreadableDir_def rootDir_def childRel_def
      walk_eval)

section \<open>A run that accepts no file\<close>

text \<open>
  C9. When the flags and arguments are accepted, the walk ends without an error and no
  file was accepted, \<^verbatim>\<open>main\<close> returns (exit status 0), nothing is written to the
  standard output, and the last line of the log, which goes to the standard error, is the
  message that no files matched; before it stands the report of the skipped files, if
  there are any. The first variant writes that message alone.
\<close>

theorem no_files_is_not_an_error:
  "(\<not> (useClaudeXML fl \<and> useMarkdown fl) \<and> length (positionalArgs ev) \<le> 1
      \<and> absError ev = None
      \<and> WalkDir (walkFn fl) (rootName ev) (rootEntry ev) \<lparr>files = [], skippedFiles = []\<rparr>
          = (None, st)
      \<and> files st = [] \<longrightarrow>
      main fl ev
        = \<lparr>exitCode = 0, stdout = [],
           stderr = skipReport (skippedFiles st) @ [NoFilesMatched]\<rparr>)
   \<and> (\<not> (useClaudeXML fl \<and> useMarkdown fl) \<and> absError ev = None
      \<and> WalkDir (walkFn_v1 fl) (rootName ev) (rootEntry ev) [] = (None, []) \<longrightarrow>
      main_v1 fl ev = \<lparr>exitCode = 0, stdout = [], stderr = [NoFilesMatched]\<rparr>)"
  by (auto simp: main_def main_v1_def sortFiles_def Let_def)

theorem no_files_is_not_an_error_witness:
  "WalkDir (walkFn defaultFlags) (rootName (envOf treeWithoutMatches))
       (rootEntry (envOf treeWithoutMatches)) \<lparr>files = [], skippedFiles = []\<rparr>
     = (None,
        \<lparr>files = [],
           skippedFiles = [''b.bin (unsupported extension)'', ''empty.go (empty)'']\<rparr>)
   \<and> main defaultFlags (envOf treeWithoutMatches)
     = \<lparr>exitCode = 0, stdout = [],
        stderr =
          [SkippedHeader 2, SkippedItem ''b.bin (unsupported extension)'',
           SkippedItem ''empty.go (empty)'', BlankLine, NoFilesMatched]\<rparr>
   \<and> main_v1 defaultFlags (envOf treeWithoutMatches)
     = \<lparr>exitCode = 0, stdout = [], stderr = [NoFilesMatched]\<rparr>"
  using no_files_is_not_an_error
      [of defaultFlags "envOf treeWithoutMatches"
        "\<lparr>files = [], skippedFiles = [''b.bin (unsupported extension)'', ''empty.go (empty)'']\<rparr>"]
  by (simp add: WalkDir_def envOf_def treeWithoutMatches_def childRel_def skipReport_def
      walk_eval)

section \<open>The order of the output\<close>

lemma lessFile_asym: "lessFile a b \<Longrightarrow> \<not> lessFile b a"
  by (auto simp: lessFile_def split: if_splits)

lemma not_lessFile_trans: "\<not> lessFile b a \<Longrightarrow> \<not> lessFile c b \<Longrightarrow> \<not> lessFile c a"
  by (auto simp: lessFile_def split: if_splits)

lemma mset_insertBy: "mset (insertBy lessFn x xs) = add_mset x (mset xs)"
  by (induction xs) auto

lemma mset_sortSlice: "mset (sortSlice lessFn xs) = mset xs"
  by (induction xs) (auto simp: mset_insertBy)

lemma set_insertBy: "set (insertBy lessFn x xs) = insert x (set xs)"
  using mset_insertBy [of lessFn x xs] by (metis set_mset_add_mset_insert set_mset_mset)

lemma sorted_insertBy:
  "sorted_wrt (\<lambda>a b. \<not> lessFile b a) xs
    \<Longrightarrow> sorted_wrt (\<lambda>a b. \<not> lessFile b a) (insertBy lessFile x xs)"
proof (induction xs)
  case Nil
  then show ?case by simp
next
  case (Cons y ys)
  show ?case
  proof (cases "lessFile y x")
    case True
    then have "\<not> lessFile x y"
      by (rule lessFile_asym)
    with True Cons show ?thesis
      by (auto simp: set_insertBy)
  next
    case False
    have "\<not> lessFile z x" if "z \<in> set ys" for z
    proof -
      from that Cons.prems have "\<not> lessFile z y" by auto
      with False show ?thesis
        using not_lessFile_trans [of y x z] by blast
    qed
    with False Cons.prems show ?thesis by auto
  qed
qed

lemma sorted_sortSlice: "sorted_wrt (\<lambda>a b. \<not> lessFile b a) (sortSlice lessFile xs)"
  by (induction xs) (auto intro: sorted_insertBy)

lemma sliceSorted_order:
  assumes "sliceSorted lessFile fs ys" and "i < j" and "j < length ys"
  shows "(isReadme (ys ! j) \<longrightarrow> isReadme (ys ! i))
    \<and> (isReadme (ys ! i) = isReadme (ys ! j) \<longrightarrow> path (ys ! i) \<le> path (ys ! j))"
proof -
  from assms have "\<not> lessFile (ys ! j) (ys ! i)"
    by (auto simp: sliceSorted_def sorted_wrt_iff_nth_less)
  then show ?thesis
    by (auto simp: lessFile_def split: if_splits)
qed

lemma sliceSorted_readme_first:
  assumes "sliceSorted lessFile fs ys" and "f \<in> set fs" and "isReadme f"
  shows "ys \<noteq> [] \<and> isReadme (hd ys)"
proof -
  from assms(1) have "set ys = set fs"
    by (metis sliceSorted_def set_mset_mset)
  with assms(2) obtain j where j: "j < length ys" "ys ! j = f"
    by (metis in_set_conv_nth)
  then have ne: "ys \<noteq> []" by auto
  have "isReadme (ys ! 0)"
  proof (cases "j = 0")
    case True
    with j assms(3) show ?thesis by simp
  next
    case False
    then have "0 < j" by simp
    from sliceSorted_order [OF assms(1) this j(1)] j(2) assms(3) show ?thesis by simp
  qed
  with ne show ?thesis
    by (simp add: hd_conv_nth)
qed

text \<open>
  The comparison is the order of the keys (not a readme, path), and files with distinct
  paths have distinct keys: a slice of such files has one ordered permutation only.
\<close>

lemma lessFile_key:
  "lessFile a b \<longleftrightarrow> (\<not> isReadme a, path a) < (\<not> isReadme b, path b)"
  by (auto simp: lessFile_def less_prod_def)

lemma sliceSorted_keys:
  assumes "sliceSorted lessFile fs ys"
  shows "map (\<lambda>f. (\<not> isReadme f, path f)) ys = sort (map (\<lambda>f. (\<not> isReadme f, path f)) fs)"
proof -
  let ?key = "\<lambda>f. (\<not> isReadme f, path f)"
  from assms have "sorted_wrt (\<lambda>a b. \<not> lessFile b a) ys"
    by (simp add: sliceSorted_def)
  then have "sorted_wrt (\<lambda>a b. ?key a \<le> ?key b) ys"
    by (rule sorted_wrt_mono_rel [rotated]) (simp only: lessFile_key not_less)
  then have "sorted (map ?key ys)"
    by (simp add: sorted_wrt_map)
  moreover from assms have "mset (map ?key ys) = mset (map ?key fs)"
    by (simp add: sliceSorted_def)
  ultimately show ?thesis
    using properties_for_sort [of "map ?key ys" "map ?key fs"] by simp
qed

lemma sliceSorted_unique:
  assumes "distinct (map path fs)" and "sliceSorted lessFile fs ys"
  shows "ys = sortFiles fs"
proof -
  let ?key = "\<lambda>f. (\<not> isReadme f, path f)"
  have sorted: "sliceSorted lessFile fs (sortFiles fs)"
    by (simp add: sliceSorted_def sortFiles_def mset_sortSlice sorted_sortSlice)
  from assms(1) have "inj_on path (set fs)"
    by (simp add: distinct_map)
  then have inj: "inj_on ?key (set fs)"
    by (auto simp: inj_on_def)
  from assms(2) sorted have sets: "set ys = set fs" "set (sortFiles fs) = set fs"
    by (metis sliceSorted_def set_mset_mset)+
  from sliceSorted_keys [OF assms(2)] sliceSorted_keys [OF sorted]
  have "map ?key ys = map ?key (sortFiles fs)" by simp
  with inj sets show ?thesis
    by (simp add: inj_on_map_eq_map)
qed

lemma sortFiles_Nil: "sortFiles fs = [] \<longleftrightarrow> fs = []"
  using mset_sortSlice [of lessFile fs]
  by (metis sortFiles_def mset_zero_iff)

lemma main_stdout:
  assumes "\<not> (useClaudeXML fl \<and> useMarkdown fl)" and "length (positionalArgs ev) \<le> 1"
    and "absError ev = None"
    and "WalkDir (walkFn fl) (rootName ev) (rootEntry ev) emptyState = (None, st)"
    and "files st \<noteq> []"
  shows "stdout (main fl ev) =
     (if useClaudeXML fl
      then ''<documents>'' @ newline
        @ concat (map (xmlDocument Join (prependPath fl)) (sortFiles (files st)))
        @ ''</documents>'' @ newline
      else if useMarkdown fl
      then concat (map (markdownFile Join (prependPath fl)) (sortFiles (files st)))
      else concat (map (standardTextFile Join (prependPath fl)) (sortFiles (files st))))"
proof -
  from assms(2) have "\<not> 1 < length (positionalArgs ev)" by simp
  with assms(1,3,5) assms(4) [unfolded emptyState_def] show ?thesis
    by (simp add: main_def Let_def sortFiles_Nil buildClaudeXML_def buildMarkdown_def
        buildStandardText_def)
qed

lemma main_v1_stdout:
  assumes "\<not> (useClaudeXML fl \<and> useMarkdown fl)" and "absError ev = None"
    and "WalkDir (walkFn_v1 fl) (rootName ev) (rootEntry ev) [] = (None, fs1)"
    and "fs1 \<noteq> []"
  shows "stdout (main_v1 fl ev) =
     (if useClaudeXML fl
      then ''<documents>'' @ newline @ concat (map xmlDocument_v1 (sortFiles fs1))
        @ ''</documents>'' @ newline
      else if useMarkdown fl then concat (map markdownFile_v1 (sortFiles fs1))
      else concat (map standardTextFile_v1 (sortFiles fs1)))"
  using assms
  by (simp add: main_v1_def Let_def sortFiles_Nil buildClaudeXML_v1_def buildMarkdown_v1_def
      buildStandardText_v1_def)

lemma main_gi_stdout:
  assumes "\<not> (useClaudeXML fl \<and> useMarkdown fl)" and "length (positionalArgs evg) \<le> 1"
    and "absError evg = None"
    and "ignoreFileStat evg = None \<longrightarrow> ignoreFileCompiled evg = Inr matchesPath"
    and "WalkDir (walkFn_gi (if ignoreFileStat evg = None then Some matchesPath else None) fl)
           (rootName evg) (rootEntry evg) emptyState = (None, stg)"
    and "files stg \<noteq> []"
  shows "stdout (main_gi fl gitignorePath verbose evg) =
     (if useClaudeXML fl
      then ''<documents>'' @ newline
        @ concat (map (xmlDocument Join (prependPath fl)) (sortFiles (files stg)))
        @ ''</documents>'' @ newline
      else if useMarkdown fl
      then concat (map (markdownFile_gi Join (prependPath fl)) (sortFiles (files stg)))
      else concat (map (standardTextFile Join (prependPath fl)) (sortFiles (files stg))))"
proof -
  from assms(2) have "\<not> 1 < length (positionalArgs evg)" by simp
  with assms(1,3,4,6) assms(5) [unfolded emptyState_def] show ?thesis
    by (cases "ignoreFileStat evg")
      (simp_all add: main_gi_def Let_def sortFiles_Nil buildClaudeXML_def buildMarkdown_gi_def
        buildStandardText_def)
qed

text \<open>
  C6. What each of the three programs writes to the standard output, when the walk ends
  without an error and has collected a file, is the text of the collected files one
  after the other in the order of the sorted slice \<open>sortFiles\<close> (for the XML format,
  between the line that opens and the line that closes the documents). The sorted slice
  is an ordered permutation of the collected files, and in every ordered permutation
  \<open>ys\<close> of them, so whatever \<^verbatim>\<open>sort.Slice\<close> does inside: of two files the later one is
  named readme only if the earlier one is, so every readme stands before every other
  file; two files of the same group stand in ascending order of their paths, compared
  byte by byte; if some collected file is named readme, the first file is; and when the
  paths are pairwise distinct, as those of a walk are, \<open>ys\<close> is the sorted slice of
  the model.
\<close>

theorem readme_first_then_by_path:
  "sliceSorted lessFile fs (sortFiles fs)
   \<and> (\<forall>ys. sliceSorted lessFile fs ys \<longrightarrow>
        (\<forall>i j. i < j \<and> j < length ys \<longrightarrow>
           (isReadme (ys ! j) \<longrightarrow> isReadme (ys ! i))
           \<and> (isReadme (ys ! i) = isReadme (ys ! j) \<longrightarrow> path (ys ! i) \<le> path (ys ! j)))
        \<and> ((\<exists>f \<in> set fs. isReadme f) \<longrightarrow> ys \<noteq> [] \<and> isReadme (hd ys))
        \<and> (distinct (map path fs) \<longrightarrow> ys = sortFiles fs))
   \<and> (\<not> (useClaudeXML fl \<and> useMarkdown fl) \<and> length (positionalArgs ev) \<le> 1
        \<and> absError ev = None
        \<and> WalkDir (walkFn fl) (rootName ev) (rootEntry ev) emptyState = (None, st)
        \<and> files st \<noteq> [] \<longrightarrow>
      stdout (main fl ev) =
        (if useClaudeXML fl
         then ''<documents>'' @ newline
           @ concat (map (xmlDocument Join (prependPath fl)) (sortFiles (files st)))
           @ ''</documents>'' @ newline
         else if useMarkdown fl
         then concat (map (markdownFile Join (prependPath fl)) (sortFiles (files st)))
         else concat (map (standardTextFile Join (prependPath fl)) (sortFiles (files st)))))
   \<and> (\<not> (useClaudeXML fl \<and> useMarkdown fl) \<and> absError ev = None
        \<and> WalkDir (walkFn_v1 fl) (rootName ev) (rootEntry ev) [] = (None, fs1)
        \<and> fs1 \<noteq> [] \<longrightarrow>
      stdout (main_v1 fl ev) =
        (if useClaudeXML fl
         then ''<documents>'' @ newline @ concat (map xmlDocument_v1 (sortFiles fs1))
           @ ''</documents>'' @ newline
         else if useMarkdown fl then concat (map markdownFile_v1 (sortFiles fs1))
         else concat (map standardTextFile_v1 (sortFiles fs1))))
   \<and> (\<not> (useClaudeXML fl \<and> useMarkdown fl) \<and> length (positionalArgs evg) \<le> 1
        \<and> absError evg = None
        \<and> (ignoreFileStat evg = None \<longrightarrow> ignoreFileCompiled evg = Inr matchesPath)
        \<and> WalkDir (walkFn_gi (if ignoreFileStat evg = None then Some matchesPath else None) fl)
             (rootName evg) (rootEntry evg) emptyState = (None, stg)
        \<and> files stg \<noteq> [] \<longrightarrow>
      stdout (main_gi fl gitignorePath verbose evg) =
        (if useClaudeXML fl
         then ''<documents>'' @ newline
           @ concat (map (xmlDocument Join (prependPath fl)) (sortFiles (files stg)))
           @ ''</documents>'' @ newline
         else if useMarkdown fl
         then concat (map (markdownFile_gi Join (prependPath fl)) (sortFiles (files stg)))
         else concat (map (standardTextFile Join (prependPath fl)) (sortFiles (files stg)))))"
proof -
  have sorted: "sliceSorted lessFile fs (sortFiles fs)"
    by (simp add: sliceSorted_def sortFiles_def mset_sortSlice sorted_sortSlice)
  have order: "(\<forall>i j. i < j \<and> j < length ys \<longrightarrow>
           (isReadme (ys ! j) \<longrightarrow> isReadme (ys ! i))
           \<and> (isReadme (ys ! i) = isReadme (ys ! j) \<longrightarrow> path (ys ! i) \<le> path (ys ! j)))
        \<and> ((\<exists>f \<in> set fs. isReadme f) \<longrightarrow> ys \<noteq> [] \<and> isReadme (hd ys))
        \<and> (distinct (map path fs) \<longrightarrow> ys = sortFiles fs)"
    if "sliceSorted lessFile fs ys" for ys
    using sliceSorted_order [OF that] sliceSorted_readme_first [OF that]
      sliceSorted_unique [OF _ that] by blast
  show ?thesis
    apply (intro conjI allI impI)
    subgoal by (rule sorted)
    subgoal for ys i j using order [of ys] by blast
    subgoal for ys i j using order [of ys] by blast
    subgoal for ys using order [of ys] by blast
    subgoal for ys using order [of ys] by blast
    subgoal for ys using order [of ys] by blast
    subgoal by (rule main_stdout) blast+
    subgoal by (rule main_v1_stdout) blast+
    subgoal by (rule main_gi_stdout) blast+
    done
qed

lemmas readme_eval =
  isReadme_def Base_def EqualFold_def lowerByte_def Separator_def char_of_def bit_Suc_0_iff
  Let_def

lemmas sort_eval = sortFiles_def lessFile_def readme_eval

lemma sortFiles_collectedFiles:
  "sortFiles collectedFiles =
     [\<lparr>path = ''README.md'', content = ''top''\<rparr>,
      \<lparr>path = ''z/deep/ReadMe.MD'', content = ''deep''\<rparr>,
      \<lparr>path = ''Z.go'', content = ''package z''\<rparr>,
      \<lparr>path = ''a.go'', content = ''package a''\<rparr>]"
  by (simp add: collectedFiles_def sort_eval)

lemma WalkDir_readmeTree:
  "WalkDir (walkFn defaultFlags) ''project'' (Inr readmeTree) emptyState
     = (None, \<lparr>files = [\<lparr>path = ''a.go'', content = ''package a''\<rparr>,
                        \<lparr>path = ''z/ReadMe.MD'', content = ''deep''\<rparr>],
               skippedFiles = []\<rparr>)"
  by (simp add: WalkDir_def readmeTree_def childRel_def walk_eval)

lemma WalkDir_v1_readmeTree:
  "WalkDir (walkFn_v1 defaultFlags) ''project'' (Inr readmeTree) []
     = (None, [\<lparr>path = ''a.go'', content = ''package a''\<rparr>,
               \<lparr>path = ''z/ReadMe.MD'', content = ''deep''\<rparr>])"
  by (simp add: WalkDir_def readmeTree_def childRel_def walk_eval)

lemma WalkDir_gi_readmeTree:
  "WalkDir (walkFn_gi None defaultFlags) ''project'' (Inr readmeTree) emptyState
     = (None, \<lparr>files = [\<lparr>path = ''a.go'', content = ''package a''\<rparr>,
                        \<lparr>path = ''z/ReadMe.MD'', content = ''deep''\<rparr>],
               skippedFiles = []\<rparr>)"
  by (simp add: WalkDir_def readmeTree_def childRel_def walk_eval excludedExtsMap_def
      ignored_def)

lemma sortFiles_readmeTree:
  "sortFiles [\<lparr>path = ''a.go'', content = ''package a''\<rparr>,
              \<lparr>path = ''z/ReadMe.MD'', content = ''deep''\<rparr>]
     = [\<lparr>path = ''z/ReadMe.MD'', content = ''deep''\<rparr>,
        \<lparr>path = ''a.go'', content = ''package a''\<rparr>]"
  by (simp add: sort_eval)

text \<open>
  Four collected files, two of them named readme, one of these three directories deep:
  the sorted slice has the two readmes first, each group in byte order (\<^verbatim>\<open>Z.go\<close>
  before \<^verbatim>\<open>a.go\<close>). And a run on a tree where the walk collects \<^verbatim>\<open>a.go\<close> before
  \<^verbatim>\<open>z/ReadMe.MD\<close>: each of the three programs writes the readme first.
\<close>

theorem readme_first_then_by_path_witness:
  "sliceSorted lessFile collectedFiles (sortFiles collectedFiles)
   \<and> (0::nat) < 3 \<and> 3 < length (sortFiles collectedFiles)
   \<and> isReadme (sortFiles collectedFiles ! 0)
   \<and> \<not> isReadme (sortFiles collectedFiles ! 3)
   \<and> isReadme (sortFiles collectedFiles ! 1)
   \<and> path (sortFiles collectedFiles ! 0) \<le> path (sortFiles collectedFiles ! 1)
   \<and> path (sortFiles collectedFiles ! 2) \<le> path (sortFiles collectedFiles ! 3)
   \<and> isReadme (collectedFiles ! 1)
   \<and> isReadme (hd (sortFiles collectedFiles))
   \<and> path (hd (sortFiles collectedFiles)) = ''README.md''
   \<and> distinct (map path collectedFiles)
   \<and> WalkDir (walkFn defaultFlags) (rootName (envOf readmeTree)) (rootEntry (envOf readmeTree))
        emptyState
       = (None, \<lparr>files = [\<lparr>path = ''a.go'', content = ''package a''\<rparr>,
                          \<lparr>path = ''z/ReadMe.MD'', content = ''deep''\<rparr>],
                 skippedFiles = []\<rparr>)
   \<and> stdout (main defaultFlags (envOf readmeTree))
       = standardTextFile Join [] \<lparr>path = ''z/ReadMe.MD'', content = ''deep''\<rparr>
         @ standardTextFile Join [] \<lparr>path = ''a.go'', content = ''package a''\<rparr>
   \<and> stdout (main_v1 defaultFlags (envOf readmeTree))
       = standardTextFile_v1 \<lparr>path = ''z/ReadMe.MD'', content = ''deep''\<rparr>
         @ standardTextFile_v1 \<lparr>path = ''a.go'', content = ''package a''\<rparr>
   \<and> stdout (main_gi (defaultFlags\<lparr>useMarkdown := True\<rparr>) [] False (envOf_gi readmeTree))
       = markdownFile_gi Join [] \<lparr>path = ''z/ReadMe.MD'', content = ''deep''\<rparr>
         @ markdownFile_gi Join [] \<lparr>path = ''a.go'', content = ''package a''\<rparr>"
proof -
  have sl: "sliceSorted lessFile collectedFiles (sortFiles collectedFiles)"
    using readme_first_then_by_path [of collectedFiles] by blast
  have r1: "isReadme (collectedFiles ! 1)" "collectedFiles ! 1 \<in> set collectedFiles"
    by (simp_all add: collectedFiles_def sort_eval)
  then have ex: "\<exists>f \<in> set collectedFiles. isReadme f" by blast
  have len: "(0::nat) < 3 \<and> 3 < length (sortFiles collectedFiles)"
    by (simp add: sortFiles_collectedFiles)
  have hd: "isReadme (hd (sortFiles collectedFiles))"
    using readme_first_then_by_path [of collectedFiles] sl ex by blast
  have o01: "path (sortFiles collectedFiles ! 0) \<le> path (sortFiles collectedFiles ! 1)"
    "isReadme (sortFiles collectedFiles ! 0)" "isReadme (sortFiles collectedFiles ! 1)"
    by (simp_all add: sortFiles_collectedFiles readme_eval)
  have o23: "path (sortFiles collectedFiles ! 2) \<le> path (sortFiles collectedFiles ! 3)"
    "\<not> isReadme (sortFiles collectedFiles ! 3)"
    by (simp_all add: sortFiles_collectedFiles readme_eval)
  have p: "path (hd (sortFiles collectedFiles)) = ''README.md''"
    by (simp add: sortFiles_collectedFiles)
  have d: "distinct (map path collectedFiles)"
    by (simp add: collectedFiles_def)
  have w: "WalkDir (walkFn defaultFlags) (rootName (envOf readmeTree))
        (rootEntry (envOf readmeTree)) emptyState
       = (None, \<lparr>files = [\<lparr>path = ''a.go'', content = ''package a''\<rparr>,
                          \<lparr>path = ''z/ReadMe.MD'', content = ''deep''\<rparr>],
                 skippedFiles = []\<rparr>)"
    by (simp add: envOf_def WalkDir_readmeTree)
  have m: "stdout (main defaultFlags (envOf readmeTree))
       = standardTextFile Join [] \<lparr>path = ''z/ReadMe.MD'', content = ''deep''\<rparr>
         @ standardTextFile Join [] \<lparr>path = ''a.go'', content = ''package a''\<rparr>"
    using readme_first_then_by_path
      [where fl = defaultFlags and ev = "envOf readmeTree"
        and st = "\<lparr>files = [\<lparr>path = ''a.go'', content = ''package a''\<rparr>,
                          \<lparr>path = ''z/ReadMe.MD'', content = ''deep''\<rparr>],
                 skippedFiles = []\<rparr>"] w
    by (simp add: envOf_def defaultFlags_def sortFiles_readmeTree)
  have m1: "stdout (main_v1 defaultFlags (envOf readmeTree))
       = standardTextFile_v1 \<lparr>path = ''z/ReadMe.MD'', content = ''deep''\<rparr>
         @ standardTextFile_v1 \<lparr>path = ''a.go'', content = ''package a''\<rparr>"
    using readme_first_then_by_path
      [where fl = defaultFlags and ev = "envOf readmeTree"
        and ?fs1.0 = "[\<lparr>path = ''a.go'', content = ''package a''\<rparr>,
                       \<lparr>path = ''z/ReadMe.MD'', content = ''deep''\<rparr>]"]
      WalkDir_v1_readmeTree
    by (simp add: envOf_def defaultFlags_def sortFiles_readmeTree)
  have wg: "WalkDir (walkFn_gi None (defaultFlags\<lparr>useMarkdown := True\<rparr>)) ''project''
        (Inr readmeTree) emptyState
       = (None, \<lparr>files = [\<lparr>path = ''a.go'', content = ''package a''\<rparr>,
                          \<lparr>path = ''z/ReadMe.MD'', content = ''deep''\<rparr>],
                 skippedFiles = []\<rparr>)"
    by (simp add: WalkDir_def readmeTree_def childRel_def walk_eval excludedExtsMap_def
        ignored_def)
  have mg: "stdout (main_gi (defaultFlags\<lparr>useMarkdown := True\<rparr>) [] False (envOf_gi readmeTree))
       = markdownFile_gi Join [] \<lparr>path = ''z/ReadMe.MD'', content = ''deep''\<rparr>
         @ markdownFile_gi Join [] \<lparr>path = ''a.go'', content = ''package a''\<rparr>"
    using readme_first_then_by_path
      [where fl = "defaultFlags\<lparr>useMarkdown := True\<rparr>" and evg = "envOf_gi readmeTree"
        and gitignorePath = "[]" and verbose = False
        and stg = "\<lparr>files = [\<lparr>path = ''a.go'', content = ''package a''\<rparr>,
                          \<lparr>path = ''z/ReadMe.MD'', content = ''deep''\<rparr>],
                 skippedFiles = []\<rparr>"] wg
    by (simp add: envOf_gi_def defaultFlags_def sortFiles_readmeTree)
  from sl len hd o01 o23 r1(1) p d w m m1 mg show ?thesis by blast
qed

section \<open>Every file that is reached is accounted for\<close>

lemma recorded_skip_same: "recorded (skip p reason st) p"
  by (auto simp: recorded_def skip_def)

lemma recorded_accept_same: "recorded (accept p c st) p"
  by (auto simp: recorded_def accept_def)

lemma recorded_skip_mono: "recorded st p \<Longrightarrow> recorded (skip q reason st) p"
  by (auto simp: recorded_def skip_def)

lemma recorded_accept_mono: "recorded st p \<Longrightarrow> recorded (accept q c st) p"
  by (auto simp: recorded_def accept_def)

lemma walkFn_step:
  assumes "walkFn fl relPath name d err st = (r, st')"
  shows "st' = st \<or> (\<exists>reason. st' = skip relPath reason st) \<or> (\<exists>c. st' = accept relPath c st)"
  using assms by (cases d; cases err) (auto split: if_splits sum.splits)

lemma walkFn_mono:
  assumes "walkFn fl relPath name d err st = (r, st')" and "recorded st p"
  shows "recorded st' p"
  using walkFn_step [OF assms(1)] assms(2)
  by (auto intro: recorded_skip_mono recorded_accept_mono)

lemma walkFn_file:
  assumes "walkFn fl relPath name (RegularFile info bytes) None st = (r, st')"
  shows "r = RetNil \<and> (recorded st' relPath \<or> unmatchedByIncludes fl relPath info)"
  using assms
  by (auto simp: unmatchedByIncludes_def split: if_splits sum.splits
      intro: recorded_skip_same recorded_accept_same)

lemma walkFn_unmatched:
  assumes "unmatchedByIncludes fl relPath info"
  shows "walkFn fl relPath name (RegularFile info bytes) None st = (RetNil, st)"
  using assms by (auto simp: unmatchedByIncludes_def split: sum.splits)

lemma walk_mono:
  "walkDir fn relPath name d st = (r, st') \<Longrightarrow> fn = walkFn fl
     \<Longrightarrow> r \<noteq> RetSkipDir \<and> (recorded st p \<longrightarrow> recorded st' p)"
  "walkEntries fn parent ds st = (r, st') \<Longrightarrow> fn = walkFn fl
     \<Longrightarrow> r \<noteq> RetSkipDir \<and> (recorded st p \<longrightarrow> recorded st' p)"
proof (induction fn relPath name d st and fn parent ds st arbitrary: r st' and r st'
    rule: walkDir_walkEntries.induct)
  case (1 fn relPath name rderr entries st)
  obtain r1 st1 where cb: "fn relPath name (Directory rderr entries) None st = (r1, st1)"
    by (cases "fn relPath name (Directory rderr entries) None st")
  with "1.prems" have m1: "recorded st p \<longrightarrow> recorded st1 p"
    using walkFn_mono by blast
  show ?case
  proof (cases r1)
    case RetNil
    show ?thesis
    proof (cases rderr)
      case None
      with cb RetNil "1.prems"(1) have "walkEntries fn relPath entries st1 = (r, st')"
        by simp
      from "1.IH"(1) [OF cb [symmetric] RetNil None this "1.prems"(2)] m1 show ?thesis
        by blast
    next
      case (Some e)
      with "1.prems"(2) have "fn relPath name (Directory rderr entries) (Some e) st1 = (RetErr e, st1)"
        by simp
      with cb RetNil Some "1.prems"(1) m1 show ?thesis by auto
    qed
  next
    case RetSkipDir
    with cb "1.prems"(1) m1 show ?thesis by auto
  next
    case (RetErr e)
    with cb "1.prems"(1) m1 show ?thesis by auto
  qed
next
  case (2 fn relPath name info content st)
  then have w: "walkFn fl relPath name (RegularFile info content) None st = (r, st')"
    by simp
  from walkFn_file [OF w] walkFn_mono [OF w] show ?case by blast
next
  case (3 fn relPath name st)
  then show ?case by auto
next
  case (4 fn parent st)
  then show ?case by simp
next
  case (5 fn parent name d1 ds st)
  obtain r1 st1 where w: "walkDir fn (childRel parent name) name d1 st = (r1, st1)"
    by (cases "walkDir fn (childRel parent name) name d1 st")
  from "5.IH"(1) [OF w "5.prems"(2)]
  have r1: "r1 \<noteq> RetSkipDir" and m1: "recorded st p \<longrightarrow> recorded st1 p"
    by simp_all
  show ?case
  proof (cases r1)
    case RetNil
    with w "5.prems"(1) have "walkEntries fn parent ds st1 = (r, st')" by simp
    from "5.IH"(2) [OF w [symmetric] RetNil this "5.prems"(2)] m1 show ?thesis
      by blast
  next
    case RetSkipDir
    with r1 show ?thesis by simp
  next
    case (RetErr e)
    with w "5.prems"(1) m1 show ?thesis by auto
  qed
qed

text \<open>
  The walk is over when it returns nil. Every reached file is then accounted for, or it
  is a file that the include patterns of the user do not select.
\<close>

lemma walk_covers:
  "walkDir fn relPath name d st = (RetNil, st') \<Longrightarrow> fn = walkFn fl
     \<Longrightarrow> \<forall>(p, info) \<in> set (reachedFiles fl relPath name d).
           recorded st' p \<or> unmatchedByIncludes fl p info"
  "walkEntries fn parent ds st = (RetNil, st') \<Longrightarrow> fn = walkFn fl
     \<Longrightarrow> \<forall>(p, info) \<in> set (reachedIn fl parent ds).
           recorded st' p \<or> unmatchedByIncludes fl p info"
proof (induction fn relPath name d st and fn parent ds st arbitrary: st' and st'
    rule: walkDir_walkEntries.induct)
  case (1 fn relPath name rderr entries st)
  obtain r1 st1 where cb: "fn relPath name (Directory rderr entries) None st = (r1, st1)"
    by (cases "fn relPath name (Directory rderr entries) None st")
  show ?case
  proof (cases "vcsName name \<or> excluded fl relPath")
    case True
    then show ?thesis by simp
  next
    case False
    with cb "1.prems"(2) have r1: "r1 = RetNil" by auto
    show ?thesis
    proof (cases rderr)
      case None
      with cb r1 "1.prems"(1) have "walkEntries fn relPath entries st1 = (RetNil, st')"
        by simp
      from "1.IH"(1) [OF cb [symmetric] r1 None this "1.prems"(2)] False show ?thesis
        by simp
    next
      case (Some e)
      with "1.prems"(2) have "fn relPath name (Directory rderr entries) (Some e) st1 = (RetErr e, st1)"
        by simp
      with cb r1 Some "1.prems"(1) show ?thesis by simp
    qed
  qed
next
  case (2 fn relPath name info content st)
  then have w: "walkFn fl relPath name (RegularFile info content) None st = (RetNil, st')"
    by simp
  from walkFn_file [OF w] show ?case by simp
next
  case (3 fn relPath name st)
  then show ?case by simp
next
  case (4 fn parent st)
  then show ?case by simp
next
  case (5 fn parent name d1 ds st)
  obtain r1 st1 where w: "walkDir fn (childRel parent name) name d1 st = (r1, st1)"
    by (cases "walkDir fn (childRel parent name) name d1 st")
  from walk_mono(1) [OF w "5.prems"(2)] have "r1 \<noteq> RetSkipDir" by simp
  with w "5.prems"(1) have r1: "r1 = RetNil"
    by (cases r1) auto
  with w "5.prems"(1) have rest: "walkEntries fn parent ds st1 = (RetNil, st')" by simp
  have first: "recorded st' p \<or> unmatchedByIncludes fl p info"
    if "(p, info) \<in> set (reachedFiles fl (childRel parent name) name d1)" for p info
  proof -
    from "5.IH"(1) [OF w [unfolded r1] "5.prems"(2)] that
    have "recorded st1 p \<or> unmatchedByIncludes fl p info" by blast
    with walk_mono(2) [OF rest "5.prems"(2), of p] show ?thesis by blast
  qed
  from "5.IH"(2) [OF w [symmetric] r1 rest "5.prems"(2)] first show ?case
    by auto
qed

text \<open>
  C4 says that no regular file is dropped without a record. With an include pattern
  given, a file that passes the exclude and size checks and matches no include pattern is
  dropped without one (\<^verbatim>\<open>main.go\<close>, lines 183 to 187: the callback only logs "if not
  using custom includes to avoid verbosity"): here \<^verbatim>\<open>notes.md\<close> is reached, and the
  walk ends with no file and no record.
\<close>

theorem unmatched_file_dropped_silently:
  "reachedFiles (defaultFlags\<lparr>includes_i := [''*.go'']\<rparr>) ''.'' ''project'' notesTree
       = [(''notes.md'', Inr 5)]
   \<and> WalkDir (walkFn (defaultFlags\<lparr>includes_i := [''*.go'']\<rparr>)) ''project''
       (Inr notesTree) emptyState
     = (None, \<lparr>files = [], skippedFiles = []\<rparr>)
   \<and> \<not> recorded \<lparr>files = [], skippedFiles = []\<rparr> ''notes.md''"
  using not_matched_star_go_md
  by (simp add: WalkDir_def childRel_def walk_eval notesTree_def recorded_def)

text \<open>
  C4, amended. When the walk ends without an error, every regular file under the root
  that is not inside a pruned subtree is in the collected files, or is in
  \<^verbatim>\<open>skippedFiles\<close> with a reason, or it is a file that the include patterns leave
  out: include patterns were given, no exclude pattern matches the file, its size passes
  the size checks (not above the limit, not zero), and no include pattern matches it. For such a file the
  callback returns nil and leaves both lists as they were, so it is dropped without a
  record. Without include patterns, then, every such file is accounted for.
\<close>

theorem reached_files_accounted_for:
  assumes "WalkDir (walkFn fl) root (Inr tree) emptyState = (None, st)"
  shows "(\<forall>(p, info) \<in> set (reachedFiles fl ''.'' root tree).
            recorded st p \<or> unmatchedByIncludes fl p info)
    \<and> (includes_i fl = [] \<longrightarrow>
          (\<forall>(p, info) \<in> set (reachedFiles fl ''.'' root tree). recorded st p))
    \<and> (unmatchedByIncludes fl relPath info \<longrightarrow>
          walkFn fl relPath name (RegularFile info bytes) None st0 = (RetNil, st0))"
proof -
  obtain r where w: "walkDir (walkFn fl) ''.'' root tree emptyState = (r, st)" and "r \<noteq> RetErr e" for e
    using assms by (auto simp: WalkDir_def split: prod.splits walk_ret.splits)
  moreover from walk_mono(1) [OF w refl] have "r \<noteq> RetSkipDir" by simp
  ultimately have "r = RetNil"
    by (cases r) auto
  with w have "walkDir (walkFn fl) ''.'' root tree emptyState = (RetNil, st)" by simp
  from walk_covers(1) [OF this refl]
  have all: "\<forall>(p, info) \<in> set (reachedFiles fl ''.'' root tree).
      recorded st p \<or> unmatchedByIncludes fl p info" .
  then have "includes_i fl = [] \<longrightarrow>
      (\<forall>(p, info) \<in> set (reachedFiles fl ''.'' root tree). recorded st p)"
    by (auto simp: unmatchedByIncludes_def)
  with all walkFn_unmatched show ?thesis by blast
qed

lemma WalkDir_sampleTree:
  "WalkDir (walkFn defaultFlags) ''project'' (Inr sampleTree) emptyState = (None, sampleState)"
  by (simp add: WalkDir_def sampleTree_def sampleState_def childRel_def walk_eval)

lemma reachedFiles_sampleTree:
  "map fst (reachedFiles defaultFlags ''.'' ''project'' sampleTree)
     = [''README.md'', ''a.go'', ''b.bin'', ''sub/empty.txt'']"
  by (simp add: sampleTree_def childRel_def walk_eval)

lemma WalkDir_notesTree:
  "WalkDir (walkFn (defaultFlags\<lparr>includes_i := [''*.go'']\<rparr>)) ''project'' (Inr notesTree)
     emptyState = (None, emptyState)"
  using not_matched_star_go_md
  by (simp add: WalkDir_def childRel_def walk_eval notesTree_def)

lemma reachedFiles_notesTree:
  "reachedFiles (defaultFlags\<lparr>includes_i := [''*.go'']\<rparr>) ''.'' ''project'' notesTree
     = [(''notes.md'', Inr 5)]"
  by (simp add: childRel_def walk_eval notesTree_def)

text \<open>
  With the default flags every reached file of the sample tree is accounted for, and the
  file below \<^verbatim>\<open>node_modules\<close> is not. With \<^verbatim>\<open>-i "*.go"\<close>, \<^verbatim>\<open>notes.md\<close> is a file
  that the include patterns leave out.
\<close>

theorem reached_files_accounted_for_witness:
  "WalkDir (walkFn defaultFlags) ''project'' (Inr sampleTree) emptyState = (None, sampleState)
   \<and> includes_i defaultFlags = []
   \<and> map fst (reachedFiles defaultFlags ''.'' ''project'' sampleTree)
       = [''README.md'', ''a.go'', ''b.bin'', ''sub/empty.txt'']
   \<and> list_all (\<lambda>(p, info). recorded sampleState p)
        (reachedFiles defaultFlags ''.'' ''project'' sampleTree)
   \<and> \<not> recorded sampleState ''node_modules/x.js''
   \<and> WalkDir (walkFn (defaultFlags\<lparr>includes_i := [''*.go'']\<rparr>)) ''project'' (Inr notesTree)
        emptyState = (None, emptyState)
   \<and> reachedFiles (defaultFlags\<lparr>includes_i := [''*.go'']\<rparr>) ''.'' ''project'' notesTree
       = [(''notes.md'', Inr 5)]
   \<and> \<not> recorded emptyState ''notes.md''
   \<and> unmatchedByIncludes (defaultFlags\<lparr>includes_i := [''*.go'']\<rparr>) ''notes.md'' (Inr 5)
   \<and> walkFn (defaultFlags\<lparr>includes_i := [''*.go'']\<rparr>) ''notes.md'' ''notes.md''
        (RegularFile (Inr 5) (Inr ''hello'')) None sampleState = (RetNil, sampleState)"
proof -
  have "\<not> recorded sampleState ''node_modules/x.js''"
    by (simp add: recorded_def sampleState_def skipEntry_def)
  moreover have "includes_i defaultFlags = []"
    by (simp add: defaultFlags_def)
  moreover have "\<not> recorded emptyState ''notes.md''"
    by (simp add: recorded_def emptyState_def)
  ultimately show ?thesis
    using reached_files_accounted_for [OF WalkDir_sampleTree]
      reached_files_accounted_for [OF WalkDir_notesTree, where relPath = "''notes.md''"
        and info = "Inr 5" and name = "''notes.md''" and bytes = "Inr ''hello''"
        and ?st0.0 = sampleState]
    by (simp add: WalkDir_sampleTree WalkDir_notesTree reachedFiles_sampleTree
        reachedFiles_notesTree list_all_iff)
qed

section \<open>Reading the content back from the output\<close>








section \<open>Patterns without a separator\<close>

text \<open>
  What a chunk without a bracket expression and without a separator can consume of a
  name: no separator. The question mark refuses a separator and takes one rune, whose
  further bytes are 0x80 at least; a literal is compared with the byte it takes.
\<close>

lemma rune_without_separator:
  assumes "s \<noteq> []" and "hd s \<noteq> Separator"
  shows "Separator \<notin> set (take (snd (DecodeRuneInString s)) s)"
proof -
  obtain r w where d: "DecodeRuneInString s = (r, w)"
    by (cases "DecodeRuneInString s")
  from DecodeRuneInString_bytes [OF assms(1) d]
  consider "w = 1" | "\<forall>c \<in> set (take w s). 0x80 \<le> (of_char c :: nat)"
    by blast
  then show ?thesis
  proof cases
    case 1
    with assms have "take w s = [hd s]"
      by (cases s) auto
    with assms(2) d show ?thesis by simp
  next
    case 2
    have "(of_char Separator :: nat) < 0x80"
      by (simp add: Separator_def)
    with 2 d show ?thesis
      by (auto simp: not_le [symmetric])
  qed
qed

lemma matchChunkFrom_failed:
  "failed \<Longrightarrow> matchChunkFrom failed chunk s \<noteq> Some (t, True)"
  by (induction failed chunk s rule: matchChunkFrom.induct)
    (auto simp: Let_def split: option.splits list.splits)

lemma matchChunkFrom_consumes:
  "Separator \<notin> set chunk \<Longrightarrow> CHR ''['' \<notin> set chunk
     \<Longrightarrow> matchChunkFrom failed chunk s = Some (t, True)
     \<Longrightarrow> \<exists>u. s = u @ t \<and> Separator \<notin> set u"
proof (induction failed chunk s rule: matchChunkFrom.induct)
  case (1 failed s)
  then show ?case
    by (auto split: if_splits)
next
  case (2 failed c chunk s)
  have nf: "\<not> failed" and ne: "s \<noteq> []"
    using "2.prems"(3) matchChunkFrom_failed [of "failed \<or> s = []" "c # chunk" s t]
      matchChunkFrom_failed [of True "c # chunk" s t]
    by (cases failed; cases "s = []"; simp)+
  then have x: "(failed \<or> s = []) = False" by simp
  from "2.prems" have c: "c \<noteq> CHR ''[''" "c \<noteq> Separator"
    and chunk: "Separator \<notin> set chunk" "CHR ''['' \<notin> set chunk"
    by auto
  show ?case
  proof (cases "c = CHR ''?''")
    case True
    let ?w = "snd (DecodeRuneInString s)"
    from "2.prems"(3) True x
    have rec: "matchChunkFrom (hd s = Separator) chunk (drop ?w s) = Some (t, True)"
      by simp
    with matchChunkFrom_failed [of "hd s = Separator" chunk "drop ?w s" t]
    have hd: "hd s \<noteq> Separator" by blast
    from "2.IH"(2) [OF x [symmetric] c(1) True _ chunk rec] x
    obtain u where u: "drop ?w s = u @ t" "Separator \<notin> set u" by auto
    have "s = (take ?w s @ u) @ t"
      using u(1) by (metis append_assoc append_take_drop_id)
    moreover have "Separator \<notin> set (take ?w s @ u)"
      using rune_without_separator [OF ne hd] u(2) by simp
    ultimately show ?thesis by blast
  next
    case q: False
    show ?thesis
    proof (cases "c = backslash")
      case True
      with "2.prems"(3) c q x obtain c1 chunk1 where ch: "chunk = c1 # chunk1"
        and rec: "matchChunkFrom (c1 \<noteq> hd s) chunk1 (tl s) = Some (t, True)"
        by (auto split: list.splits)
      with matchChunkFrom_failed [of "c1 \<noteq> hd s" chunk1 "tl s" t]
      have hd: "hd s = c1" by blast
      from chunk ch have c1: "c1 \<noteq> Separator" "Separator \<notin> set chunk1"
        "CHR ''['' \<notin> set chunk1"
        by auto
      from "2.IH"(4) [OF x [symmetric] c(1) q True ch _ c1(2,3) rec] x
      obtain u where u: "tl s = u @ t" "Separator \<notin> set u" by auto
      from ne hd u(1) have "s = (c1 # u) @ t"
        by (cases s) auto
      moreover from c1(1) u(2) have "Separator \<notin> set (c1 # u)" by simp
      ultimately show ?thesis by blast
    next
      case False
      with "2.prems"(3) c q x
      have rec: "matchChunkFrom (c \<noteq> hd s) chunk (tl s) = Some (t, True)"
        by simp
      with matchChunkFrom_failed [of "c \<noteq> hd s" chunk "tl s" t]
      have hd: "hd s = c" by blast
      from "2.IH"(6) [OF x [symmetric] c(1) q False _ chunk rec] x
      obtain u where u: "tl s = u @ t" "Separator \<notin> set u" by auto
      from ne hd u(1) have "s = (c # u) @ t"
        by (cases s) auto
      moreover from c(2) u(2) have "Separator \<notin> set (c # u)" by simp
      ultimately show ?thesis by blast
    qed
  qed
qed

lemma starLoop_consumes:
  "Separator \<notin> set chunk \<Longrightarrow> CHR ''['' \<notin> set chunk
     \<Longrightarrow> starLoop chunk final name = Found t
     \<Longrightarrow> \<exists>u. name = u @ t \<and> Separator \<notin> set u"
proof (induction name)
  case Nil
  then show ?case by simp
next
  case (Cons c cs)
  from Cons.prems(3) have c: "c \<noteq> Separator"
    by (auto split: if_splits)
  from Cons.prems(3) c obtain t' ok where m: "matchChunk chunk cs = Some (t', ok)"
    by (auto split: option.splits)
  show ?case
  proof (cases "ok \<and> \<not> (final \<and> t' \<noteq> [])")
    case True
    with Cons.prems(3) c m have "t' = t" by auto
    with m True matchChunkFrom_consumes [OF Cons.prems(1,2), of False cs t]
    obtain u where "cs = u @ t" "Separator \<notin> set u"
      by (auto simp: matchChunk_def)
    with c have "c # cs = (c # u) @ t \<and> Separator \<notin> set (c # u)" by simp
    then show ?thesis by blast
  next
    case False
    with Cons.prems(3) c m have "starLoop chunk final cs = Found t"
      by (auto split: if_splits)
    from Cons.IH [OF Cons.prems(1,2) this]
    obtain u where "cs = u @ t" "Separator \<notin> set u" by blast
    with c have "c # cs = (c # u) @ t \<and> Separator \<notin> set (c # u)" by simp
    then show ?thesis by blast
  qed
qed

lemma scanChunk_subset:
  assumes "scanChunk pattern = (star, chunk, rest)"
  shows "set chunk \<subseteq> set pattern \<and> set rest \<subseteq> set pattern"
proof -
  let ?p = "dropWhile (\<lambda>c. c = CHR ''*'') pattern"
  from assms have "chunk = take (scanEnd False ?p) ?p" "rest = drop (scanEnd False ?p) ?p"
    by (simp_all add: scanChunk_def Let_def)
  moreover have "set ?p \<subseteq> set pattern"
    by (auto dest: set_dropWhileD)
  ultimately show ?thesis
    using set_take_subset [of "scanEnd False ?p" ?p] set_drop_subset [of "scanEnd False ?p" ?p]
    by blast
qed

lemma Match_without_separator:
  "Separator \<notin> set pattern \<Longrightarrow> CHR ''['' \<notin> set pattern \<Longrightarrow> fst (Match pattern name)
     \<Longrightarrow> Separator \<notin> set name"
proof (induction pattern name rule: Match.induct)
  case (1 pattern name)
  show ?case
  proof (cases "pattern = []")
    case True
    with "1.prems"(3) show ?thesis
      by (simp add: Match.simps [of "[]"])
  next
    case False
    obtain star chunk rest where sc: "scanChunk pattern = (star, chunk, rest)"
      by (cases "scanChunk pattern")
    from scanChunk_subset [OF sc] "1.prems"(1,2)
    have chunk: "Separator \<notin> set chunk" "CHR ''['' \<notin> set chunk"
      and rest: "Separator \<notin> set rest" "CHR ''['' \<notin> set rest"
      by auto
    show ?thesis
    proof (cases "star \<and> chunk = []")
      case True
      with "1.prems"(3) False sc show ?thesis
        by (simp add: Match.simps [of pattern])
    next
      case nostar: False
      with "1.prems"(3) False sc obtain t ok where m: "matchChunk chunk name = Some (t, ok)"
        by (auto simp: Match.simps [of pattern] split: option.splits)
      show ?thesis
      proof (cases "ok \<and> (t = [] \<or> rest \<noteq> [])")
        case True
        with "1.prems"(3) False sc nostar m have "fst (Match rest t)"
          by (simp add: Match.simps [of pattern])
        from "1.IH"(1) [OF False sc [symmetric] refl nostar m refl True rest this]
        have "Separator \<notin> set t" .
        moreover from True m matchChunkFrom_consumes [OF chunk, of False name t]
        obtain u where "name = u @ t" "Separator \<notin> set u"
          by (auto simp: matchChunk_def)
        ultimately show ?thesis by simp
      next
        case notnow: False
        with "1.prems"(3) False sc nostar m obtain t' where
          sl: "(if star then starLoop chunk (rest = []) name else NotFound) = Found t'"
          and rec: "fst (Match rest t')"
          by (auto simp: Match.simps [of pattern] split: star_result.splits if_splits)
        from "1.IH"(2) [OF False sc [symmetric] refl nostar m refl notnow sl rest rec]
        have "Separator \<notin> set t'" .
        moreover from sl starLoop_consumes [OF chunk, of "rest = []" name t']
        obtain u where "name = u @ t'" "Separator \<notin> set u"
          by (auto split: if_splits)
        ultimately show ?thesis by simp
      qed
    qed
  qed
qed

text \<open>
  C10 says that a pattern without a separator matches entries of the root only. The star
  and the question mark never match a separator, but a bracket expression takes any rune
  that is in it, the separator too: the patterns \<^verbatim>\<open>sub[^x]a.log\<close> and
  \<^verbatim>\<open>sub[.-9]a.log\<close> hold no separator and match the nested file \<^verbatim>\<open>sub/a.log\<close>, which
  \<^verbatim>\<open>-e\<close> then excludes and \<^verbatim>\<open>-i\<close> includes.
\<close>

theorem bracket_expression_matches_separator:
  "Separator \<notin> set ''sub[^x]a.log'' \<and> matched ''sub[^x]a.log'' ''sub/a.log''
   \<and> Separator \<notin> set ''sub[.-9]a.log'' \<and> matched ''sub[.-9]a.log'' ''sub/a.log''
   \<and> walkFn (defaultFlags\<lparr>excludes_e := [''sub[^x]a.log'']\<rparr>) ''sub/a.log'' ''a.log''
        (RegularFile (Inr 3) (Inr ''abc'')) None emptyState
       = (RetNil, \<lparr>files = [], skippedFiles = [''sub/a.log (excluded by pattern)'']\<rparr>)
   \<and> walkFn (defaultFlags\<lparr>includes_i := [''sub[^x]a.log'']\<rparr>) ''sub/a.log'' ''a.log''
        (RegularFile (Inr 3) (Inr ''abc'')) None emptyState
       = (RetNil, \<lparr>files = [\<lparr>path = ''sub/a.log'', content = ''abc''\<rparr>], skippedFiles = []\<rparr>)"
proof -
  have m1: "matched ''sub[^x]a.log'' ''sub/a.log''"
    by (simp add: match_eval)
  have m2: "matched ''sub[.-9]a.log'' ''sub/a.log''"
    by (simp add: match_eval)
  from m1 m2 show ?thesis
    by (simp add: walk_eval)
qed

text \<open>
  C10, amended. A pattern of \<^verbatim>\<open>-i\<close> or \<^verbatim>\<open>-e\<close> that holds no separator and no
  bracket expression matches no relative path that holds a separator: it matches entries
  of the root only (and the root itself, whose relative path is a dot). So when every
  exclude pattern is of this kind no nested entry is excluded, and when include patterns
  are given and every one is of this kind no nested file is included.
\<close>

theorem plain_patterns_match_root_entries_only:
  assumes "Separator \<in> set relPath"
  shows "(Separator \<notin> set pattern \<and> CHR ''['' \<notin> set pattern \<longrightarrow> \<not> matched pattern relPath)
    \<and> ((\<forall>pattern \<in> set (excludes_e fl). Separator \<notin> set pattern \<and> CHR ''['' \<notin> set pattern)
         \<longrightarrow> \<not> excluded fl relPath)
    \<and> (includes_i fl \<noteq> []
         \<and> (\<forall>pattern \<in> set (includes_i fl). Separator \<notin> set pattern \<and> CHR ''['' \<notin> set pattern)
         \<longrightarrow> \<not> isIncluded fl relPath)"
proof -
  have plain: "\<not> matched p relPath" if "Separator \<notin> set p" and "CHR ''['' \<notin> set p" for p
    using Match_without_separator [OF that, of relPath] assms
    by (auto simp: matched_def)
  then show ?thesis
    by (auto simp: excluded_def isIncluded_def list_ex_iff)
qed

theorem plain_patterns_match_root_entries_only_witness:
  "Separator \<in> set ''sub/a.log''
   \<and> Separator \<notin> set ''*.log'' \<and> CHR ''['' \<notin> set ''*.log''
   \<and> \<not> matched ''*.log'' ''sub/a.log''
   \<and> matched ''*.log'' ''a.log''
   \<and> \<not> excluded (defaultFlags\<lparr>excludes_e := [''*.log'']\<rparr>) ''sub/a.log''
   \<and> excluded (defaultFlags\<lparr>excludes_e := [''*.log'']\<rparr>) ''a.log''
   \<and> \<not> isIncluded (defaultFlags\<lparr>includes_i := [''*.log'']\<rparr>) ''sub/a.log''
   \<and> isIncluded (defaultFlags\<lparr>includes_i := [''*.log'']\<rparr>) ''a.log''"
proof -
  have root: "matched ''*.log'' ''a.log''"
    by (simp add: match_eval)
  have sep: "Separator \<in> set ''sub/a.log''"
    by (simp add: Separator_def)
  show ?thesis
    using plain_patterns_match_root_entries_only
        [OF sep, of "''*.log''" "defaultFlags\<lparr>excludes_e := [''*.log'']\<rparr>"]
      plain_patterns_match_root_entries_only
        [OF sep, of "''*.log''" "defaultFlags\<lparr>includes_i := [''*.log'']\<rparr>"]
      root
    by (simp add: walk_eval)
qed

end
